theory Spec2Isabelle
  imports Main
begin

section \<open>The tunnel service (vs/platform/remote/common/tunnel.ts)\<close>

subsection \<open>Interfaces\<close>

text \<open>
  Ports are JavaScript numbers that hold integers; they are modelled as \<open>int\<close>.
  An optional field or argument (\<open>localPort?: number\<close>) is an \<open>option\<close>.
\<close>

record RemoteTunnel =
  tunnelRemotePort :: int
  tunnelRemoteHost :: string
  tunnelLocalPort :: "int option"
  localAddress :: string
  public :: bool

record RemoteAddress =
  port :: int
  host :: string

record TunnelOptions =
  remoteAddress :: RemoteAddress
  localAddressPort :: "int option"
  label :: "string option"
  publicOption :: "bool option"

record TunnelCreationOptions =
  elevationRequired :: "bool option"

record TunnelProviderFeatures =
  elevation :: bool
  publicFeature :: bool

text \<open>
  \<open>ITunnelProvider.forwardPort\<close> returns a promise or \<open>undefined\<close>. The provider is
  modelled by the decision it takes (\<open>True\<close>: a promise is returned); the value the
  promise settles to arrives later, from outside (\<open>resolvePromise\<close> below).
\<close>

type_synonym ITunnelProvider = "TunnelOptions \<Rightarrow> TunnelCreationOptions \<Rightarrow> bool"

record URI =
  scheme :: string
  authority :: string
  path :: string
  query :: string
  fragment :: string

text \<open>
  A number that holds a natural number or \<open>Infinity\<close>: what the unary plus gives for a
  string of decimal digits.
\<close>

datatype number = Finite nat | Infinity

record LocalHostUriMetaData =
  address :: string
  metaPort :: number

subsection \<open>extractLocalHostUriMetaDataForPortMapping\<close>

text \<open>
  The regular expression \<^verbatim>\<open>/^(localhost|127\.0\.0\.1|0\.0\.0\.0):(\d+)$/\<close> is run by
  \<open>localhostMatch\<close>: the alternatives are tried in the order written, each followed by
  a colon and one or more decimal digits up to the end of the input (no flag is set, so
  \<^verbatim>\<open>$\<close> is the end of the string and \<^verbatim>\<open>\d\<close> is \<^verbatim>\<open>[0-9]\<close>). The result holds the two
  capture groups.
\<close>

definition isDigit :: "char \<Rightarrow> bool" where
  "isDigit c = (c \<in> set ''0123456789'')"

fun matchPort :: "string \<Rightarrow> string option" where
  "matchPort [] = None"
| "matchPort (c # ds) =
     (if c = CHR '':'' \<and> ds \<noteq> [] \<and> list_all isDigit ds then Some ds else None)"

fun matchAlternatives :: "string list \<Rightarrow> string \<Rightarrow> (string \<times> string) option" where
  "matchAlternatives [] s = None"
| "matchAlternatives (a # as) s =
     (if take (length a) s = a
      then (case matchPort (drop (length a) s) of
              Some ds \<Rightarrow> Some (a, ds)
            | None \<Rightarrow> matchAlternatives as s)
      else matchAlternatives as s)"

definition localhostMatch :: "string \<Rightarrow> (string \<times> string) option" where
  "localhostMatch s = matchAlternatives [''localhost'', ''127.0.0.1'', ''0.0.0.0''] s"

text \<open>
  The unary plus on a string of decimal digits: the decimal value, rounded to the nearest
  double (ties to the even mantissa). Below \<open>2^53\<close> every natural number is a double; from
  there on a double keeps the 53 leading bits, and what rounds to \<open>2^1024\<close> or more is
  \<open>Infinity\<close>.
\<close>

definition digitValue :: "char \<Rightarrow> nat" where
  "digitValue c = of_char c - of_char (CHR ''0'')"

definition decimalValue :: "string \<Rightarrow> nat" where
  "decimalValue ds = foldl (\<lambda>n c. 10 * n + digitValue c) 0 ds"

fun bitLength :: "nat \<Rightarrow> nat" where
  "bitLength n = (if n = 0 then 0 else Suc (bitLength (n div 2)))"

declare bitLength.simps [simp del]

definition roundToDouble :: "nat \<Rightarrow> number" where
  "roundToDouble n =
     (if n < 2 ^ 53 then Finite n
      else (let k = bitLength n - 53;
                q = n div 2 ^ k;
                r = n mod 2 ^ k;
                q1 = (if 2 ^ k < 2 * r \<or> (2 * r = 2 ^ k \<and> odd q) then q + 1 else q)
            in if q1 * 2 ^ k < 2 ^ 1024 then Finite (q1 * 2 ^ k) else Infinity))"

definition toNumber :: "string \<Rightarrow> number" where
  "toNumber ds = roundToDouble (decimalValue ds)"

definition extractLocalHostUriMetaDataForPortMapping :: "URI \<Rightarrow> LocalHostUriMetaData option" where
  "extractLocalHostUriMetaDataForPortMapping uri =
     (if scheme uri \<noteq> ''http'' \<and> scheme uri \<noteq> ''https'' then None
      else (case localhostMatch (authority uri) of
              None \<Rightarrow> None
            | Some (a, ds) \<Rightarrow> Some \<lparr>address = a, metaPort = toNumber ds\<rparr>))"

definition LOCALHOST_ADDRESSES :: "string list" where
  "LOCALHOST_ADDRESSES = [''localhost'', ''127.0.0.1'', ''0:0:0:0:0:0:0:1'', ''::1'']"

definition isLocalhost :: "string \<Rightarrow> bool" where
  "isLocalhost h = (h \<in> set LOCALHOST_ADDRESSES)"

definition ALL_INTERFACES_ADDRESSES :: "string list" where
  "ALL_INTERFACES_ADDRESSES = [''0.0.0.0'', ''0:0:0:0:0:0:0:0'', ''::'']"

definition isAllInterfaces :: "string \<Rightarrow> bool" where
  "isAllInterfaces h = (h \<in> set ALL_INTERFACES_ADDRESSES)"

definition getOtherLocalhost :: "string \<Rightarrow> string option" where
  "getOtherLocalhost h =
     (if h = ''localhost'' then Some ''127.0.0.1''
      else if h = ''127.0.0.1'' then Some ''localhost'' else None)"

subsection \<open>isPortPrivileged\<close>

text \<open>
  Modelled from the spec: the enumeration \<open>OperatingSystem\<close> and the constant
  \<open>isWindows\<close> come from vs/base/common/platform, which is not among the sources.
  The enumeration is a \<open>const enum\<close> whose members are numbered from 1 (\<open>osValue\<close>), so
  every member is truthy in \<^verbatim>\<open>if (os)\<close>; \<open>isWindows\<close> (the platform the code runs on)
  is a parameter.
\<close>

datatype OperatingSystem = Windows | Macintosh | Linux

fun osValue :: "OperatingSystem \<Rightarrow> nat" where
  "osValue Windows = 1"
| "osValue Macintosh = 2"
| "osValue Linux = 3"

definition truthyOs :: "OperatingSystem option \<Rightarrow> bool" where
  "truthyOs os = (case os of None \<Rightarrow> False | Some v \<Rightarrow> osValue v \<noteq> 0)"

definition isPortPrivileged :: "bool \<Rightarrow> int \<Rightarrow> OperatingSystem option \<Rightarrow> bool" where
  "isPortPrivileged isWindows p os =
     (if truthyOs os then os \<noteq> Some Windows \<and> p < 1024
      else \<not> isWindows \<and> p < 1024)"

subsection \<open>The service's state\<close>

text \<open>
  An entry of \<open>_tunnels\<close> is an object \<open>{refcount, value}\<close>, created by
  \<open>addTunnelToMap\<close> for one host and port and held by that map alone; the model keeps
  the entry in the map and writes an update of its \<open>refcount\<close> back to its place. The
  field \<open>value\<close> is the promise of the underlying tunnel; a promise is a number, and
  \<open>promises\<close> gives the value a promise has settled to (no value while it is pending).
\<close>

record TunnelRecord =
  refcount :: int
  value' :: nat

text \<open>
  What the service's \<open>dispose\<close> has still to do while it walks through the maps: the
  entry of a host and port to visit, and the \<open>clear\<close> of a host's map after its entries.
\<close>

datatype visit = Visit string int | ClearHost string

text \<open>
  The callbacks the service passes to \<open>then\<close>: the one of \<open>openTunnel\<close> (with the number
  of the call whose result it produces, and the \<open>remoteHost\<close> and \<open>remotePort\<close> it
  closes over), the one of \<open>tryDisposeTunnel\<close>, and the one of the service's \<open>dispose\<close>
  (with what is left of its walk, which goes on after the \<open>await\<close>).
\<close>

datatype reaction =
  OpenTunnelThen nat string int
| TryDisposeThen
| DisposeThen "visit list"

text \<open>
  Besides the fields of the class, the state holds what the service does to the outside:
  the calls of \<open>forwardPort\<close>, the events fired on the two emitters, the underlying
  tunnels whose \<open>dispose\<close> was called (with \<open>true\<close> by the callback of
  \<open>tryDisposeTunnel\<close>, with no argument by the service's \<open>dispose\<close>), the warnings
  logged, and the values the
  promises returned by \<open>openTunnel\<close> resolved to (by call number). Callbacks registered on
  a pending promise wait in \<open>waiting\<close>; callbacks whose promise has settled are queued in
  \<open>microtasks\<close> and run, first in first out, once the running code has returned.
  \<open>isWindows\<close> is the constant of vs/base/common/platform, fixed for the life of the
  service. Trace messages are not kept, and rejected promises are not modelled.
\<close>

record TunnelService =
  tunnels :: "string \<rightharpoonup> (int \<rightharpoonup> TunnelRecord)"
  tunnelProvider :: "ITunnelProvider option"
  canElevate :: bool
  canMakePublic :: bool
  isWindows :: bool
  promises :: "nat \<rightharpoonup> RemoteTunnel option"
  nextPromise :: nat
  waiting :: "(nat \<times> reaction) list"
  microtasks :: "(reaction \<times> RemoteTunnel option) list"
  forwardPortCalls :: "(TunnelOptions \<times> TunnelCreationOptions) list"
  onTunnelOpened :: "RemoteTunnel list"
  onTunnelClosed :: "RemoteAddress list"
  disposedTunnels :: "RemoteTunnel list"
  warnings :: "string list"
  returned :: "nat \<rightharpoonup> RemoteTunnel option"
  nextCall :: nat

definition newTunnelService :: "bool \<Rightarrow> TunnelService" where
  "newTunnelService w =
     \<lparr>tunnels = Map.empty,
      tunnelProvider = None, canElevate = False, canMakePublic = False, isWindows = w,
      promises = Map.empty, nextPromise = 0, waiting = [], microtasks = [],
      forwardPortCalls = [], onTunnelOpened = [], onTunnelClosed = [], disposedTunnels = [],
      warnings = [], returned = Map.empty, nextCall = 0\<rparr>"

definition setTunnelProvider ::
    "ITunnelProvider option \<Rightarrow> TunnelProviderFeatures \<Rightarrow> TunnelService \<Rightarrow> TunnelService" where
  "setTunnelProvider provider features s =
     (case provider of
        None \<Rightarrow> s\<lparr>tunnelProvider := None, canElevate := False, canMakePublic := False\<rparr>
      | Some p \<Rightarrow> s\<lparr>tunnelProvider := Some p, canElevate := elevation features,
                    canMakePublic := publicFeature features\<rparr>)"

text \<open>The \<open>dispose\<close> of the object \<open>setTunnelProvider\<close> returns for a provider.\<close>

definition disposeTunnelProvider :: "TunnelService \<Rightarrow> TunnelService" where
  "disposeTunnelProvider s = s\<lparr>tunnelProvider := None, canElevate := False, canMakePublic := False\<rparr>"

subsection \<open>Promises\<close>

text \<open>
  \<open>then' p r\<close> is \<open>p.then(r)\<close>: on a settled promise the callback is queued as a
  microtask, on a pending one it waits. \<open>resolvePromise\<close> is the outside settling a
  promise that \<open>forwardPort\<close> returned: the callbacks waiting on it are queued in the
  order they were registered. Settling a promise twice changes nothing.
\<close>

definition then' :: "nat \<Rightarrow> reaction \<Rightarrow> TunnelService \<Rightarrow> TunnelService" where
  "then' p r s =
     (case promises s p of
        Some v \<Rightarrow> s\<lparr>microtasks := microtasks s @ [(r, v)]\<rparr>
      | None \<Rightarrow> s\<lparr>waiting := waiting s @ [(p, r)]\<rparr>)"

definition resolvePromise :: "nat \<Rightarrow> RemoteTunnel option \<Rightarrow> TunnelService \<Rightarrow> TunnelService" where
  "resolvePromise p v s =
     (if p < nextPromise s \<and> promises s p = None
      then s\<lparr>promises := (promises s)(p \<mapsto> v),
             microtasks := microtasks s @ map (\<lambda>w. (snd w, v)) (filter (\<lambda>w. fst w = p) (waiting s)),
             waiting := filter (\<lambda>w. fst w \<noteq> p) (waiting s)\<rparr>
      else s)"

subsection \<open>The map of tunnels\<close>

text \<open>The entry of host \<open>h\<close> and port \<open>p\<close>: \<open>_tunnels.get(h)?.get(p)\<close>.\<close>

definition storedUnder :: "TunnelService \<Rightarrow> string \<Rightarrow> int \<Rightarrow> TunnelRecord option" where
  "storedUnder s h p = (case tunnels s h of None \<Rightarrow> None | Some portMap \<Rightarrow> portMap p)"

definition addTunnelToMap :: "string \<Rightarrow> int \<Rightarrow> nat \<Rightarrow> TunnelService \<Rightarrow> TunnelService" where
  "addTunnelToMap remoteHost remotePort tunnel s =
     (let s1 = (if tunnels s remoteHost = None
                then s\<lparr>tunnels := (tunnels s)(remoteHost \<mapsto> Map.empty)\<rparr> else s)
      in (case tunnels s1 remoteHost of
            None \<Rightarrow> s1
          | Some portMap \<Rightarrow>
              s1\<lparr>tunnels := (tunnels s1)(remoteHost \<mapsto>
                    portMap(remotePort \<mapsto> \<lparr>refcount = 1, value' = tunnel\<rparr>))\<rparr>))"

text \<open>
  \<open>new Map([...first, ...second])\<close>: an entry of the second map replaces the entry of
  the first with the same port, which is \<open>firstMap ++ secondMap\<close>.
\<close>

definition getTunnelFromMap :: "TunnelService \<Rightarrow> string \<Rightarrow> int \<Rightarrow> TunnelRecord option" where
  "getTunnelFromMap s remoteHost remotePort =
     (let portMap =
        (case getOtherLocalhost remoteHost of
           Some otherLocalhost \<Rightarrow>
             (case tunnels s remoteHost of
                Some firstMap \<Rightarrow>
                  (case tunnels s otherLocalhost of
                     Some secondMap \<Rightarrow> Some (firstMap ++ secondMap)
                   | None \<Rightarrow> Some firstMap)
              | None \<Rightarrow> tunnels s otherLocalhost)
         | None \<Rightarrow> tunnels s remoteHost)
      in (case portMap of Some m \<Rightarrow> m remotePort | None \<Rightarrow> None))"

text \<open>
  \<open>removeEmptyTunnelFromMap\<close> awaits \<open>hostMap.get(remotePort)\<close>, which is the entry
  (or \<open>undefined\<close>), not the entry's promise: awaiting a value that is no promise gives
  the value itself, so \<open>tunnelResult\<close> is the entry. The part after \<open>await\<close> runs as a
  later microtask; the model runs it in the same step.
\<close>

definition removeEmptyTunnelFromMap :: "string \<Rightarrow> int \<Rightarrow> TunnelService \<Rightarrow> TunnelService" where
  "removeEmptyTunnelFromMap remoteHost remotePort s =
     (case tunnels s remoteHost of
        None \<Rightarrow> s
      | Some hostMap \<Rightarrow>
          (let tunnelResult = hostMap remotePort;
               hostMap1 = (if tunnelResult = None then hostMap(remotePort := None) else hostMap);
               s1 = s\<lparr>tunnels := (tunnels s)(remoteHost \<mapsto> hostMap1)\<rparr>
           in if hostMap1 = Map.empty
              then s1\<lparr>tunnels := (tunnels s1)(remoteHost := None)\<rparr> else s1))"

subsection \<open>Creating, retaining and opening\<close>

text \<open>
  \<open>createWithProvider\<close> calls \<open>isPortPrivileged\<close> with no \<open>os\<close> argument. The promise
  \<open>forwardPort\<close> returns is a new, pending one.
\<close>

definition createWithProvider ::
    "ITunnelProvider \<Rightarrow> string \<Rightarrow> int \<Rightarrow> int option \<Rightarrow> bool \<Rightarrow> bool \<Rightarrow> TunnelService
     \<Rightarrow> nat option \<times> TunnelService" where
  "createWithProvider provider remoteHost remotePort localPort elevateIfNeeded isPublic s =
     (let preferredLocalPort = (case localPort of None \<Rightarrow> remotePort | Some l \<Rightarrow> l);
          creationInfo = \<lparr>elevationRequired =
            Some (if elevateIfNeeded then isPortPrivileged (isWindows s) preferredLocalPort None
                  else False)\<rparr>;
          tunnelOptions = \<lparr>remoteAddress = \<lparr>port = remotePort, host = remoteHost\<rparr>,
            localAddressPort = localPort, label = None, publicOption = Some isPublic\<rparr>;
          s1 = s\<lparr>forwardPortCalls := forwardPortCalls s @ [(tunnelOptions, creationInfo)]\<rparr>
      in if provider tunnelOptions creationInfo
         then (let tunnel = nextPromise s1;
                   s2 = s1\<lparr>nextPromise := Suc tunnel\<rparr>
               in (Some tunnel, addTunnelToMap remoteHost remotePort tunnel s2))
         else (None, s1))"

text \<open>
  Modelled from the spec: \<open>retainOrCreateTunnel\<close> is abstract in \<open>AbstractTunnelService\<close>
  and no subclass is among the sources. After the spec (``concurrent callers increment
  refcount and share one pending promise'', ``supporting provider delegation''): an entry
  found by \<open>getTunnelFromMap\<close> is retained, its refcount incremented and its promise
  returned; otherwise the tunnel is created with the provider, and without a provider no
  tunnel is created. \<open>getTunnelHost\<close> is the host whose map holds the entry that
  \<open>getTunnelFromMap\<close> returns, the place where the increment is written.
\<close>

definition getTunnelHost :: "TunnelService \<Rightarrow> string \<Rightarrow> int \<Rightarrow> string option" where
  "getTunnelHost s remoteHost remotePort =
     (case getOtherLocalhost remoteHost of
        Some otherLocalhost \<Rightarrow>
          (if storedUnder s otherLocalhost remotePort \<noteq> None then Some otherLocalhost
           else if storedUnder s remoteHost remotePort \<noteq> None then Some remoteHost else None)
      | None \<Rightarrow> (if storedUnder s remoteHost remotePort \<noteq> None then Some remoteHost else None))"

definition retain :: "string \<Rightarrow> int \<Rightarrow> TunnelService \<Rightarrow> TunnelService" where
  "retain h p s =
     (case tunnels s h of
        None \<Rightarrow> s
      | Some portMap \<Rightarrow>
          (case portMap p of
             None \<Rightarrow> s
           | Some existing \<Rightarrow>
               s\<lparr>tunnels := (tunnels s)(h \<mapsto>
                    portMap(p \<mapsto> existing\<lparr>refcount := refcount existing + 1\<rparr>))\<rparr>))"

definition retainOrCreateTunnel ::
    "'ap \<Rightarrow> string \<Rightarrow> int \<Rightarrow> int option \<Rightarrow> bool \<Rightarrow> bool \<Rightarrow> TunnelService
     \<Rightarrow> nat option \<times> TunnelService" where
  "retainOrCreateTunnel addressProvider remoteHost remotePort localPort elevateIfNeeded isPublic s =
     (case getTunnelFromMap s remoteHost remotePort of
        Some existing \<Rightarrow>
          (Some (value' existing),
           (case getTunnelHost s remoteHost remotePort of
              None \<Rightarrow> s
            | Some h \<Rightarrow> retain h remotePort s))
      | None \<Rightarrow>
          (case tunnelProvider s of
             Some provider \<Rightarrow>
               createWithProvider provider remoteHost remotePort localPort elevateIfNeeded isPublic s
           | None \<Rightarrow> (None, s)))"

text \<open>
  \<open>makeTunnel\<close> copies the fields of the underlying tunnel; the \<open>dispose\<close> of the copy is
  \<open>disposeHandle\<close> below, which reads only these fields.
\<close>

definition makeTunnel :: "RemoteTunnel \<Rightarrow> RemoteTunnel" where
  "makeTunnel tunnel =
     \<lparr>tunnelRemotePort = tunnelRemotePort tunnel, tunnelRemoteHost = tunnelRemoteHost tunnel,
      tunnelLocalPort = tunnelLocalPort tunnel, localAddress = localAddress tunnel,
      public = public tunnel\<rparr>"

text \<open>
  \<open>openTunnel\<close>: the part that runs at the call, which returns the number of the call
  when a promise is returned (its value appears in \<open>returned\<close> when the callback has
  run), and the callback \<open>openTunnelThen\<close>.
\<close>

definition openTunnel ::
    "'ap option \<Rightarrow> string option \<Rightarrow> int \<Rightarrow> int option \<Rightarrow> bool \<Rightarrow> bool \<Rightarrow> TunnelService
     \<Rightarrow> nat option \<times> TunnelService" where
  "openTunnel addressProvider remoteHost remotePort localPort elevateIfNeeded isPublic s =
     (case addressProvider of
        None \<Rightarrow> (None, s)
      | Some ap \<Rightarrow>
          (let remoteHost1 = (case remoteHost of None \<Rightarrow> ''localhost''
                              | Some h \<Rightarrow> if h = [] then ''localhost'' else h)
           in (case retainOrCreateTunnel ap remoteHost1 remotePort localPort elevateIfNeeded isPublic s of
                 (None, s1) \<Rightarrow> (None, s1)
               | (Some resolvedTunnel, s1) \<Rightarrow>
                   (let c = nextCall s1
                    in (Some c, then' resolvedTunnel (OpenTunnelThen c remoteHost1 remotePort)
                                  (s1\<lparr>nextCall := Suc c\<rparr>))))))"

definition openTunnelThen ::
    "string \<Rightarrow> int \<Rightarrow> RemoteTunnel option \<Rightarrow> TunnelService \<Rightarrow> RemoteTunnel option \<times> TunnelService" where
  "openTunnelThen remoteHost remotePort tunnel s =
     (case tunnel of
        None \<Rightarrow> (None, removeEmptyTunnelFromMap remoteHost remotePort s)
      | Some t \<Rightarrow>
          (let newTunnel = makeTunnel t;
               s1 = (if tunnelRemoteHost t \<noteq> remoteHost \<or> tunnelRemotePort t \<noteq> remotePort
                     then s\<lparr>warnings := warnings s @
                       [''Created tunnel does not match requirements of requested tunnel. Host or port mismatch.'']\<rparr>
                     else s)
           in (Some newTunnel, s1\<lparr>onTunnelOpened := onTunnelOpened s1 @ [newTunnel]\<rparr>)))"

subsection \<open>Disposing and closing\<close>

text \<open>
  The callback of \<open>tryDisposeTunnel\<close>. The underlying tunnel's own \<open>dispose\<close> is taken to
  complete: the event follows the call.
\<close>

definition tryDisposeThen :: "RemoteTunnel option \<Rightarrow> TunnelService \<Rightarrow> TunnelService" where
  "tryDisposeThen tunnel s =
     (case tunnel of
        None \<Rightarrow> s
      | Some t \<Rightarrow>
          s\<lparr>disposedTunnels := disposedTunnels s @ [t],
            onTunnelClosed := onTunnelClosed s @
              [\<lparr>port = tunnelRemotePort t, host = tunnelRemoteHost t\<rparr>]\<rparr>)"

text \<open>
  At both of its calls the argument \<open>tunnel\<close> is the entry of \<open>remoteHost\<close> and
  \<open>remotePort\<close>, as just updated.
\<close>

definition tryDisposeTunnel :: "string \<Rightarrow> int \<Rightarrow> TunnelRecord \<Rightarrow> TunnelService \<Rightarrow> TunnelService" where
  "tryDisposeTunnel remoteHost remotePort tunnel s =
     (if refcount tunnel \<le> 0
      then (let s1 = then' (value' tunnel) TryDisposeThen s
            in (case tunnels s1 remoteHost of
                  Some portMap \<Rightarrow>
                    s1\<lparr>tunnels := (tunnels s1)(remoteHost \<mapsto> portMap(remotePort := None))\<rparr>
                | None \<Rightarrow> s1))
      else s)"

text \<open>The \<open>dispose\<close> of the object \<open>makeTunnel tunnel\<close> returns.\<close>

definition disposeHandle :: "RemoteTunnel \<Rightarrow> TunnelService \<Rightarrow> TunnelService" where
  "disposeHandle tunnel s =
     (case tunnels s (tunnelRemoteHost tunnel) of
        None \<Rightarrow> s
      | Some existingHost \<Rightarrow>
          (case existingHost (tunnelRemotePort tunnel) of
             None \<Rightarrow> s
           | Some existing \<Rightarrow>
               (let existing1 = existing\<lparr>refcount := refcount existing - 1\<rparr>
                in tryDisposeTunnel (tunnelRemoteHost tunnel) (tunnelRemotePort tunnel) existing1
                     (s\<lparr>tunnels := (tunnels s)(tunnelRemoteHost tunnel \<mapsto>
                          existingHost(tunnelRemotePort tunnel \<mapsto> existing1))\<rparr>))))"

definition closeTunnel :: "string \<Rightarrow> int \<Rightarrow> TunnelService \<Rightarrow> TunnelService" where
  "closeTunnel remoteHost remotePort s =
     (case tunnels s remoteHost of
        None \<Rightarrow> s
      | Some portMap \<Rightarrow>
          (case portMap remotePort of
             None \<Rightarrow> s
           | Some v \<Rightarrow>
               (let v1 = v\<lparr>refcount := 0\<rparr>
                in tryDisposeTunnel remoteHost remotePort v1
                     (s\<lparr>tunnels := (tunnels s)(remoteHost \<mapsto> portMap(remotePort \<mapsto> v1))\<rparr>))))"

text \<open>
  The service's own \<open>dispose\<close> walks through the host maps and, in each, through the
  entries: it awaits the entry's promise, calls \<open>dispose\<close> on the tunnel the promise
  resolved to, clears the host's map after its entries and the map of hosts at the end.
  The maps of the model do not record the order of insertion, in which the source visits
  them, so the walk is an argument: the hosts, each with its ports (\<open>visitsOf\<close> lays the
  walk out). An entry that is no longer there when its turn comes is passed over. At
  each entry the walk registers its callback on the entry's promise and stops; the
  callback (\<open>DisposeThen\<close>, in \<open>runReaction\<close> below) disposes the tunnel and goes on
  with the rest of the walk (in the source the walk resumes a few microtasks after the
  callback; the two are one step here). The tunnel's own \<open>dispose\<close> is taken to complete.
\<close>

definition disposeUnderlying :: "RemoteTunnel option \<Rightarrow> TunnelService \<Rightarrow> TunnelService" where
  "disposeUnderlying tunnel s =
     (case tunnel of
        None \<Rightarrow> s
      | Some t \<Rightarrow> s\<lparr>disposedTunnels := disposedTunnels s @ [t]\<rparr>)"

fun disposeVisits :: "visit list \<Rightarrow> TunnelService \<Rightarrow> TunnelService" where
  "disposeVisits [] s = s\<lparr>tunnels := Map.empty\<rparr>"
| "disposeVisits (ClearHost h # rest) s =
     disposeVisits rest
       (case tunnels s h of
          None \<Rightarrow> s
        | Some portMap \<Rightarrow> s\<lparr>tunnels := (tunnels s)(h \<mapsto> Map.empty)\<rparr>)"
| "disposeVisits (Visit h p # rest) s =
     (case storedUnder s h p of
        None \<Rightarrow> disposeVisits rest s
      | Some entry \<Rightarrow> then' (value' entry) (DisposeThen rest) s)"

definition visitsOf :: "(string \<times> int list) list \<Rightarrow> visit list" where
  "visitsOf hosts = concat (map (\<lambda>(h, ps). map (Visit h) ps @ [ClearHost h]) hosts)"

definition disposeService :: "(string \<times> int list) list \<Rightarrow> TunnelService \<Rightarrow> TunnelService" where
  "disposeService hosts s = disposeVisits (visitsOf hosts) s"

definition canTunnel :: "URI \<Rightarrow> bool" where
  "canTunnel uri = (extractLocalHostUriMetaDataForPortMapping uri \<noteq> None)"

subsection \<open>Running callbacks\<close>

fun runReaction :: "reaction \<Rightarrow> RemoteTunnel option \<Rightarrow> TunnelService \<Rightarrow> TunnelService" where
  "runReaction (OpenTunnelThen c remoteHost remotePort) v s =
     (case openTunnelThen remoteHost remotePort v s of
        (r, s1) \<Rightarrow> s1\<lparr>returned := (returned s1)(c \<mapsto> r)\<rparr>)"
| "runReaction TryDisposeThen v s = tryDisposeThen v s"
| "runReaction (DisposeThen rest) v s = disposeVisits rest (disposeUnderlying v s)"

text \<open>One microtask: the first callback of the queue runs with its promise's value.\<close>

definition runMicrotask :: "TunnelService \<Rightarrow> TunnelService" where
  "runMicrotask s =
     (case microtasks s of
        [] \<Rightarrow> s
      | (r, v) # rest \<Rightarrow> runReaction r v (s\<lparr>microtasks := rest\<rparr>))"

text \<open>
  What the outside can do to the service, one step at a time: the calls of its methods
  (the service's own \<open>dispose\<close> among them), the settling of a provider's promise, and
  the run of the next microtask.
\<close>

datatype 'ap operation =
  OpenTunnel "'ap option" "string option" int "int option" bool bool
| DisposeHandle RemoteTunnel
| CloseTunnel string int
| SetTunnelProvider "ITunnelProvider option" TunnelProviderFeatures
| DisposeTunnelProvider
| DisposeService "(string \<times> int list) list"
| ResolvePromise nat "RemoteTunnel option"
| RunMicrotask

fun step :: "'ap operation \<Rightarrow> TunnelService \<Rightarrow> TunnelService" where
  "step (OpenTunnel ap h p lp e pub) s = snd (openTunnel ap h p lp e pub s)"
| "step (DisposeHandle t) s = disposeHandle t s"
| "step (CloseTunnel h p) s = closeTunnel h p s"
| "step (SetTunnelProvider provider features) s = setTunnelProvider provider features s"
| "step DisposeTunnelProvider s = disposeTunnelProvider s"
| "step (DisposeService hosts) s = disposeService hosts s"
| "step (ResolvePromise q v) s = resolvePromise q v s"
| "step RunMicrotask s = runMicrotask s"

definition run :: "'ap operation list \<Rightarrow> TunnelService \<Rightarrow> TunnelService" where
  "run ops s = foldl (\<lambda>s' x. step x s') s ops"

subsection \<open>Example values\<close>

text \<open>
  A provider that returns a promise for every request, a tunnel to port 3000 of the
  local host, and a state in which that tunnel has been opened twice and its promise has
  resolved.
\<close>

definition exampleProvider :: ITunnelProvider where
  "exampleProvider opts info = True"

definition exampleTunnel :: RemoteTunnel where
  "exampleTunnel = \<lparr>tunnelRemotePort = 3000, tunnelRemoteHost = ''localhost'',
     tunnelLocalPort = Some 3000, localAddress = ''localhost:3000'', public = False\<rparr>"

definition openedTwice :: TunnelService where
  "openedTwice = (newTunnelService False)
     \<lparr>tunnels := [''localhost'' \<mapsto> [3000 \<mapsto> \<lparr>refcount = 2, value' = 0\<rparr>]],
      promises := [0 \<mapsto> Some exampleTunnel], nextPromise := 1\<rparr>"

definition withProvider :: TunnelService where
  "withProvider = setTunnelProvider (Some exampleProvider) \<lparr>elevation = False, publicFeature = False\<rparr>
                    (newTunnelService False)"


definition mismatchedTunnel :: RemoteTunnel where
  "mismatchedTunnel = \<lparr>tunnelRemotePort = 3000, tunnelRemoteHost = ''127.0.0.1'',
     tunnelLocalPort = Some 3000, localAddress = ''127.0.0.1:3000'', public = False\<rparr>"

definition openedTwiceRun :: "RemoteTunnel \<Rightarrow> unit operation list" where
  "openedTwiceRun t =
     [SetTunnelProvider (Some exampleProvider) \<lparr>elevation = False, publicFeature = False\<rparr>,
      OpenTunnel (Some ()) (Some ''localhost'') 3000 None False False,
      OpenTunnel (Some ()) (Some ''localhost'') 3000 None False False,
      ResolvePromise 0 (Some t), RunMicrotask, RunMicrotask]"



definition failedOpen :: "unit operation list" where
  "failedOpen = [OpenTunnel (Some ()) (Some ''localhost'') 3000 None False False,
                 ResolvePromise 0 None, RunMicrotask]"

definition created :: TunnelService where
  "created = snd (createWithProvider exampleProvider ''localhost'' 3000 None False False
                    (newTunnelService False))"

definition closedWhilePending :: "unit operation list" where
  "closedWhilePending = [CloseTunnel ''localhost'' 3000, ResolvePromise 0 None, RunMicrotask]"

subsection \<open>Predicates on states\<close>



definition disposeCallbacks :: "TunnelService \<Rightarrow> nat" where
  "disposeCallbacks s =
     length (filter (\<lambda>w. snd w = TryDisposeThen) (waiting s)) +
     length (filter (\<lambda>m. fst m = TryDisposeThen) (microtasks s))"







section \<open>The terminal service of the main thread (vs/workbench/api/browser/mainThreadTerminalService.ts)\<close>

subsection \<open>State\<close>

text \<open>
  A \<open>TerminalIdentifier\<close> is a number (the renderer's id) or a string (the id the
  extension host made up for a terminal it asked for).
\<close>

datatype TerminalIdentifier = NumberId nat | StringId string

text \<open>
  Modelled from the spec: the terminal service (\<open>ITerminalService\<close>), its instances and
  the process proxies (\<open>ITerminalProcessExtHostProxy\<close>) are not among the sources. After
  the spec (``maps extension-host requests onto the local terminal set''), the service
  holds a list of instances, each with its id, and is asked for an instance by id; the
  active instance, when there is one, is the instance of \<open>activeInstanceId\<close>. An
  instance keeps the text sent to it, and a process proxy keeps the events emitted on it.
\<close>

record ITerminalInstance =
  instanceId :: nat
  sentText :: "(string \<times> bool) list"
  initialDataEvents :: "string list option"

datatype ProcessEvent =
  EmitTitle string
| EmitData string
| EmitReady nat string
| EmitExit "int option"
| EmitOverrideDimensions "(nat \<times> nat) option"
| EmitInitialCwd string
| EmitCwd string
| EmitResolvedShellLaunchConfig string
| EmitLatency nat

text \<open>
  The fields of \<open>MainThreadTerminalService\<close> (\<open>extHostTerminalIds\<close>, \<open>remoteAuthority\<close>,
  \<open>terminalProcessProxies\<close>, \<open>dataEventTracker\<close>), the state of the terminal service it
  talks to, the errors written to the log, the \<open>$acceptTerminalProcessData\<close> and
  \<open>$acceptTerminalClosed\<close> calls made on the extension host, and the state of the tracker's
  \<open>TerminalDataBufferer\<close>: the terminals it listens to and the data buffered for each.
\<close>

record MainThreadTerminalService =
  extHostTerminalIds :: "string \<rightharpoonup> nat"
  remoteAuthority :: "string option"
  terminalProcessProxies :: "nat \<rightharpoonup> ProcessEvent list"
  terminalInstances :: "ITerminalInstance list"
  activeInstanceId :: "nat option"
  nextInstanceId :: nat
  panelVisible :: bool
  panelFocused :: bool
  errorLog :: "string list"
  acceptTerminalProcessData :: "(nat \<times> string) list"
  acceptTerminalClosed :: "nat list"
  dataEventTracker :: bool
  bufferListeners :: "nat set"
  terminalBufferMap :: "nat \<rightharpoonup> string list"

definition getInstanceFromId :: "MainThreadTerminalService \<Rightarrow> nat \<Rightarrow> ITerminalInstance option" where
  "getInstanceFromId s n = find (\<lambda>t. instanceId t = n) (terminalInstances s)"

definition getActiveInstance :: "MainThreadTerminalService \<Rightarrow> ITerminalInstance option" where
  "getActiveInstance s = (case activeInstanceId s of None \<Rightarrow> None | Some n \<Rightarrow> getInstanceFromId s n)"

text \<open>The decimal digits of a number, as a template string writes it.\<close>

fun showNat :: "nat \<Rightarrow> string" where
  "showNat n =
     (if n < 10 then [''0123456789'' ! n]
      else showNat (n div 10) @ [''0123456789'' ! (n mod 10)])"

declare showNat.simps [simp del]

subsection \<open>Looking up terminals\<close>

definition getTerminalId :: "MainThreadTerminalService \<Rightarrow> TerminalIdentifier \<Rightarrow> nat option" where
  "getTerminalId s ident = (case ident of NumberId n \<Rightarrow> Some n | StringId u \<Rightarrow> extHostTerminalIds s u)"

definition getTerminalInstance ::
    "MainThreadTerminalService \<Rightarrow> TerminalIdentifier \<Rightarrow> ITerminalInstance option" where
  "getTerminalInstance s ident =
     (case getTerminalId s ident of
        Some rendererId \<Rightarrow> getInstanceFromId s rendererId
      | None \<Rightarrow> None)"

definition getTerminalProcess ::
    "nat \<Rightarrow> MainThreadTerminalService \<Rightarrow> ProcessEvent list option \<times> MainThreadTerminalService" where
  "getTerminalProcess terminalId s =
     (case terminalProcessProxies s terminalId of
        None \<Rightarrow> (None, s\<lparr>errorLog := errorLog s @ [''Unknown terminal: '' @ showNat terminalId]\<rparr>)
      | Some terminal \<Rightarrow> (Some terminal, s))"

subsection \<open>The data buffer\<close>

text \<open>
  \<open>onTerminalData\<close> is the callback the tracker is created with: the call of
  \<open>$acceptTerminalProcessData\<close> on the extension host.
\<close>

definition onTerminalData :: "nat \<Rightarrow> string \<Rightarrow> MainThreadTerminalService \<Rightarrow> MainThreadTerminalService" where
  "onTerminalData terminalId d s =
     s\<lparr>acceptTerminalProcessData := acceptTerminalProcessData s @ [(terminalId, d)]\<rparr>"

text \<open>
  Modelled from the spec: \<open>TerminalDataBufferer\<close> (terminalDataBuffering.ts) is not among
  the sources. After the spec (``buffers per-terminal data events before flushing to
  reduce message volume'', ``rapid successive writes before flush collapse into fewer
  forwarded events without reordering''): while a terminal is listened to, its data
  events are appended to the terminal's buffer; a flush empties the buffer and forwards
  its content, joined in order, as one event; stopping flushes what is buffered and ends
  the listening.
\<close>

definition startBuffering :: "nat \<Rightarrow> MainThreadTerminalService \<Rightarrow> MainThreadTerminalService" where
  "startBuffering i s = s\<lparr>bufferListeners := insert i (bufferListeners s)\<rparr>"

definition bufferData :: "nat \<Rightarrow> string \<Rightarrow> MainThreadTerminalService \<Rightarrow> MainThreadTerminalService" where
  "bufferData i d s =
     (if i \<in> bufferListeners s
      then s\<lparr>terminalBufferMap := (terminalBufferMap s)(i \<mapsto>
               (case terminalBufferMap s i of None \<Rightarrow> [d] | Some b \<Rightarrow> b @ [d]))\<rparr>
      else s)"

definition flushBuffer :: "nat \<Rightarrow> MainThreadTerminalService \<Rightarrow> MainThreadTerminalService" where
  "flushBuffer i s =
     (case terminalBufferMap s i of
        None \<Rightarrow> s
      | Some b \<Rightarrow> onTerminalData i (concat b) (s\<lparr>terminalBufferMap := (terminalBufferMap s)(i := None)\<rparr>))"

definition stopBuffering :: "nat \<Rightarrow> MainThreadTerminalService \<Rightarrow> MainThreadTerminalService" where
  "stopBuffering i s =
     (let s1 = flushBuffer i s in s1\<lparr>bufferListeners := bufferListeners s1 - {i}\<rparr>)"

subsection \<open>TerminalDataEventTracker\<close>

definition registerInstance :: "ITerminalInstance \<Rightarrow> MainThreadTerminalService \<Rightarrow> MainThreadTerminalService" where
  "registerInstance inst s = startBuffering (instanceId inst) s"

text \<open>
  The constructor of the tracker registers the instances there are; the listeners it adds
  to \<open>onInstanceCreated\<close> and \<open>onInstanceDisposed\<close> are in \<open>instanceCreated\<close> and
  \<open>instanceDisposed\<close> below.
\<close>

definition newTerminalDataEventTracker :: "MainThreadTerminalService \<Rightarrow> MainThreadTerminalService" where
  "newTerminalDataEventTracker s =
     fold registerInstance (terminalInstances s) (s\<lparr>dataEventTracker := True\<rparr>)"

definition startSendingDataEvents :: "MainThreadTerminalService \<Rightarrow> MainThreadTerminalService" where
  "startSendingDataEvents s =
     (if \<not> dataEventTracker s
      then fold (\<lambda>t s'. (case initialDataEvents t of
                           None \<Rightarrow> s'
                         | Some ds \<Rightarrow> fold (onTerminalData (instanceId t)) ds s'))
             (terminalInstances s) (newTerminalDataEventTracker s)
      else s)"

subsection \<open>What the terminal service reports\<close>

text \<open>
  The events of the terminal service that the claims are about: an instance is created,
  an instance is disposed, an instance emits data, and the timer of a buffer fires.
\<close>

definition instanceCreated :: "ITerminalInstance \<Rightarrow> MainThreadTerminalService \<Rightarrow> MainThreadTerminalService" where
  "instanceCreated inst s =
     (let s1 = s\<lparr>terminalInstances := terminalInstances s @ [inst]\<rparr>
      in if dataEventTracker s1 then registerInstance inst s1 else s1)"

definition instanceDisposed :: "nat \<Rightarrow> MainThreadTerminalService \<Rightarrow> MainThreadTerminalService" where
  "instanceDisposed i s =
     (let s1 = s\<lparr>terminalInstances := filter (\<lambda>t. instanceId t \<noteq> i) (terminalInstances s),
                  activeInstanceId := (if activeInstanceId s = Some i then None else activeInstanceId s),
                  acceptTerminalClosed := acceptTerminalClosed s @ [i]\<rparr>
      in if dataEventTracker s1 then stopBuffering i s1 else s1)"

definition instanceData :: "nat \<Rightarrow> string \<Rightarrow> MainThreadTerminalService \<Rightarrow> MainThreadTerminalService" where
  "instanceData i d s = (if dataEventTracker s then bufferData i d s else s)"

datatype TerminalEvent =
  InstanceCreated ITerminalInstance
| InstanceDisposed nat
| InstanceData nat string
| FlushTimer nat

fun terminalStep :: "TerminalEvent \<Rightarrow> MainThreadTerminalService \<Rightarrow> MainThreadTerminalService" where
  "terminalStep (InstanceCreated inst) s = instanceCreated inst s"
| "terminalStep (InstanceDisposed i) s = instanceDisposed i s"
| "terminalStep (InstanceData i d) s = instanceData i d s"
| "terminalStep (FlushTimer i) s = flushBuffer i s"

subsection \<open>Requests of the extension host\<close>

definition createTerminal :: "string \<Rightarrow> MainThreadTerminalService \<Rightarrow> MainThreadTerminalService" where
  "createTerminal extHostTerminalId s =
     (let terminal = \<lparr>instanceId = nextInstanceId s, sentText = [], initialDataEvents = None\<rparr>;
          s1 = instanceCreated terminal (s\<lparr>nextInstanceId := Suc (nextInstanceId s)\<rparr>)
      in s1\<lparr>extHostTerminalIds := (extHostTerminalIds s1)(extHostTerminalId \<mapsto> instanceId terminal)\<rparr>)"

definition show' :: "TerminalIdentifier \<Rightarrow> bool \<Rightarrow> MainThreadTerminalService \<Rightarrow> MainThreadTerminalService" where
  "show' ident preserveFocus s =
     (case getTerminalInstance s ident of
        Some terminalInstance \<Rightarrow>
          s\<lparr>activeInstanceId := Some (instanceId terminalInstance),
            panelVisible := True, panelFocused := \<not> preserveFocus\<rparr>
      | None \<Rightarrow> s)"

definition hide :: "TerminalIdentifier \<Rightarrow> MainThreadTerminalService \<Rightarrow> MainThreadTerminalService" where
  "hide ident s =
     (let rendererId = getTerminalId s ident
      in (case getActiveInstance s of
            Some inst \<Rightarrow> if Some (instanceId inst) = rendererId then s\<lparr>panelVisible := False\<rparr> else s
          | None \<Rightarrow> s))"

definition dispose :: "TerminalIdentifier \<Rightarrow> MainThreadTerminalService \<Rightarrow> MainThreadTerminalService" where
  "dispose ident s =
     (case getTerminalInstance s ident of
        Some terminalInstance \<Rightarrow> instanceDisposed (instanceId terminalInstance) s
      | None \<Rightarrow> s)"

definition sendText ::
    "TerminalIdentifier \<Rightarrow> string \<Rightarrow> bool \<Rightarrow> MainThreadTerminalService \<Rightarrow> MainThreadTerminalService" where
  "sendText ident text addNewLine s =
     (case getTerminalInstance s ident of
        Some terminalInstance \<Rightarrow>
          s\<lparr>terminalInstances := map (\<lambda>t. if instanceId t = instanceId terminalInstance
                                           then t\<lparr>sentText := sentText t @ [(text, addNewLine)]\<rparr> else t)
                                     (terminalInstances s)\<rparr>
      | None \<Rightarrow> s)"

text \<open>
  \<open>_onRequestSpawnExtHostProcess\<close> and \<open>_onRequestStartExtensionTerminal\<close> put the proxy of
  the request into the map, the former only when the extension host is a remote one
  (\<open>remoteAuthority\<close> is neither \<open>null\<close> nor empty). The requests they send on to the
  extension host and the listeners they add to the proxy are not kept.
\<close>

definition onRequestSpawnExtHostProcess :: "nat \<Rightarrow> MainThreadTerminalService \<Rightarrow> MainThreadTerminalService" where
  "onRequestSpawnExtHostProcess terminalId s =
     (if remoteAuthority s = None \<or> remoteAuthority s = Some [] then s
      else s\<lparr>terminalProcessProxies := (terminalProcessProxies s)(terminalId \<mapsto> [])\<rparr>)"

definition onRequestStartExtensionTerminal :: "nat \<Rightarrow> MainThreadTerminalService \<Rightarrow> MainThreadTerminalService" where
  "onRequestStartExtensionTerminal terminalId s =
     s\<lparr>terminalProcessProxies := (terminalProcessProxies s)(terminalId \<mapsto> [])\<rparr>"

text \<open>
  The seven \<open>$sendProcess...\<close> methods and \<open>$sendOverrideDimensions\<close> read the map
  themselves: \<open>emitOn\<close> is their common body, with the event each of them emits.
\<close>

definition emitOn :: "nat \<Rightarrow> ProcessEvent \<Rightarrow> MainThreadTerminalService \<Rightarrow> MainThreadTerminalService" where
  "emitOn terminalId ev s =
     (case terminalProcessProxies s terminalId of
        Some terminalProcess \<Rightarrow>
          s\<lparr>terminalProcessProxies := (terminalProcessProxies s)(terminalId \<mapsto> terminalProcess @ [ev])\<rparr>
      | None \<Rightarrow> s)"

definition sendProcessTitle :: "nat \<Rightarrow> string \<Rightarrow> MainThreadTerminalService \<Rightarrow> MainThreadTerminalService" where
  "sendProcessTitle terminalId title s = emitOn terminalId (EmitTitle title) s"

definition sendProcessData :: "nat \<Rightarrow> string \<Rightarrow> MainThreadTerminalService \<Rightarrow> MainThreadTerminalService" where
  "sendProcessData terminalId d s = emitOn terminalId (EmitData d) s"

definition sendProcessReady :: "nat \<Rightarrow> nat \<Rightarrow> string \<Rightarrow> MainThreadTerminalService \<Rightarrow> MainThreadTerminalService" where
  "sendProcessReady terminalId pid cwd s = emitOn terminalId (EmitReady pid cwd) s"

text \<open>\<open>$sendProcessExit\<close> emits the exit on the proxy and takes the proxy out of the map.\<close>

definition sendProcessExit :: "nat \<Rightarrow> int option \<Rightarrow> MainThreadTerminalService \<Rightarrow> MainThreadTerminalService" where
  "sendProcessExit terminalId exitCode s =
     (case terminalProcessProxies s terminalId of
        Some terminalProcess \<Rightarrow>
          s\<lparr>terminalProcessProxies := (terminalProcessProxies s)(terminalId := None)\<rparr>
      | None \<Rightarrow> s)"

definition sendOverrideDimensions ::
    "nat \<Rightarrow> (nat \<times> nat) option \<Rightarrow> MainThreadTerminalService \<Rightarrow> MainThreadTerminalService" where
  "sendOverrideDimensions terminalId dimensions s = emitOn terminalId (EmitOverrideDimensions dimensions) s"

definition sendProcessInitialCwd :: "nat \<Rightarrow> string \<Rightarrow> MainThreadTerminalService \<Rightarrow> MainThreadTerminalService" where
  "sendProcessInitialCwd terminalId initialCwd s = emitOn terminalId (EmitInitialCwd initialCwd) s"

definition sendProcessCwd :: "nat \<Rightarrow> string \<Rightarrow> MainThreadTerminalService \<Rightarrow> MainThreadTerminalService" where
  "sendProcessCwd terminalId cwd s = emitOn terminalId (EmitCwd cwd) s"

definition sendResolvedLaunchConfig :: "nat \<Rightarrow> string \<Rightarrow> MainThreadTerminalService \<Rightarrow> MainThreadTerminalService" where
  "sendResolvedLaunchConfig terminalId shellLaunchConfig s =
     (case getInstanceFromId s terminalId of
        Some inst \<Rightarrow>
          (case getTerminalProcess terminalId s of
             (Some terminalProcess, s1) \<Rightarrow>
               s1\<lparr>terminalProcessProxies := (terminalProcessProxies s1)(terminalId \<mapsto>
                     terminalProcess @ [EmitResolvedShellLaunchConfig shellLaunchConfig])\<rparr>
           | (None, s1) \<Rightarrow> s1)
      | None \<Rightarrow> s)"

text \<open>
  The end of \<open>_onRequestLatency\<close>, after the two round trips: \<open>elapsed\<close> is the sum of
  the two samples, which the proxy receives halved (the event keeps the sum).
\<close>

definition onRequestLatencyDone :: "nat \<Rightarrow> nat \<Rightarrow> MainThreadTerminalService \<Rightarrow> MainThreadTerminalService" where
  "onRequestLatencyDone terminalId elapsed s =
     (case getTerminalProcess terminalId s of
        (Some terminalProcess, s1) \<Rightarrow>
          s1\<lparr>terminalProcessProxies := (terminalProcessProxies s1)(terminalId \<mapsto>
                terminalProcess @ [EmitLatency elapsed])\<rparr>
      | (None, s1) \<Rightarrow> s1)"

definition newTerminalService :: MainThreadTerminalService where
  "newTerminalService =
     \<lparr>extHostTerminalIds = Map.empty, remoteAuthority = None,
      terminalProcessProxies = Map.empty, terminalInstances = [],
      activeInstanceId = None, nextInstanceId = 1, panelVisible = False, panelFocused = False,
      errorLog = [], acceptTerminalProcessData = [], acceptTerminalClosed = [],
      dataEventTracker = False, bufferListeners = {}, terminalBufferMap = Map.empty\<rparr>"

subsection \<open>What has been forwarded and what is buffered\<close>

text \<open>
  For a terminal: the data forwarded to the extension host so far, joined in the order of
  the calls; the data waiting in its buffer; and the data of an event that the buffer
  takes in (the data of the terminal's data event, when the terminal is listened to).
\<close>

definition forwardedData :: "MainThreadTerminalService \<Rightarrow> nat \<Rightarrow> string" where
  "forwardedData s i = concat (map snd (filter (\<lambda>m. fst m = i) (acceptTerminalProcessData s)))"

definition bufferedData :: "MainThreadTerminalService \<Rightarrow> nat \<Rightarrow> string" where
  "bufferedData s i = (case terminalBufferMap s i of None \<Rightarrow> [] | Some b \<Rightarrow> concat b)"

definition observedData :: "MainThreadTerminalService \<Rightarrow> nat \<Rightarrow> TerminalEvent \<Rightarrow> string" where
  "observedData s i e =
     (case e of
        InstanceData j d \<Rightarrow> if j = i \<and> dataEventTracker s \<and> i \<in> bufferListeners s then d else []
      | _ \<Rightarrow> [])"

subsection \<open>Example terminals\<close>

text \<open>
  One terminal, created at the extension host's request, with the sending of data events
  started afterwards.
\<close>

definition oneTerminal :: MainThreadTerminalService where
  "oneTerminal = startSendingDataEvents (createTerminal ''a-uuid'' newTerminalService)"

section \<open>Helper facts\<close>

subsection \<open>The tunnel service\<close>

lemma then'_frame [simp]:
  "tunnels (then' q r s) = tunnels s"
  "promises (then' q r s) = promises s"
  "nextPromise (then' q r s) = nextPromise s"
  "forwardPortCalls (then' q r s) = forwardPortCalls s"
  "onTunnelOpened (then' q r s) = onTunnelOpened s"
  "onTunnelClosed (then' q r s) = onTunnelClosed s"
  "disposedTunnels (then' q r s) = disposedTunnels s"
  "returned (then' q r s) = returned s"
  "nextCall (then' q r s) = nextCall s"
  "tunnelProvider (then' q r s) = tunnelProvider s"
  by (simp_all add: then'_def split: option.splits)

lemma matchPort_Some:
  "matchPort r = Some ds \<longleftrightarrow> r = CHR '':'' # ds \<and> ds \<noteq> [] \<and> list_all isDigit ds"
  by (cases r) auto

lemma matchPort_None:
  "matchPort r = None \<longleftrightarrow> \<not> (\<exists>ds. r = CHR '':'' # ds \<and> ds \<noteq> [] \<and> list_all isDigit ds)"
  by (cases r) auto

lemma matchAlternatives_iff:
  "matchAlternatives as s \<noteq> None \<longleftrightarrow>
     (\<exists>a ds. a \<in> set as \<and> ds \<noteq> [] \<and> list_all isDigit ds \<and> s = a @ CHR '':'' # ds)"
proof (induction as)
  case Nil
  then show ?case by simp
next
  case (Cons a as)
  show ?case
  proof (cases "take (length a) s = a")
    case True
    then have s: "s = a @ drop (length a) s" by (metis append_take_drop_id)
    show ?thesis
    proof (cases "matchPort (drop (length a) s)")
      case None
      have no: "\<not> (\<exists>ds. ds \<noteq> [] \<and> list_all isDigit ds \<and> s = a @ CHR '':'' # ds)"
      proof
        assume "\<exists>ds. ds \<noteq> [] \<and> list_all isDigit ds \<and> s = a @ CHR '':'' # ds"
        then obtain ds where d: "ds \<noteq> []" "list_all isDigit ds" "s = a @ CHR '':'' # ds" by blast
        then have "drop (length a) s = CHR '':'' # ds" by simp
        with d None show False by (simp add: matchPort_None)
      qed
      from None True Cons.IH no show ?thesis by auto
    next
      case (Some ds)
      then have "drop (length a) s = CHR '':'' # ds" "ds \<noteq> []" "list_all isDigit ds"
        by (simp_all add: matchPort_Some)
      with s have "s = a @ CHR '':'' # ds" by simp
      with Some True \<open>ds \<noteq> []\<close> \<open>list_all isDigit ds\<close> show ?thesis by auto
    qed
  next
    case False
    then have "\<And>ds. s \<noteq> a @ CHR '':'' # ds" by auto
    with False Cons.IH show ?thesis by auto
  qed
qed

lemma canTunnel_authority:
  "canTunnel u \<longleftrightarrow>
      (scheme u = ''http'' \<or> scheme u = ''https'') \<and>
      (\<exists>h ds. h \<in> {''localhost'', ''127.0.0.1'', ''0.0.0.0''} \<and> ds \<noteq> [] \<and> list_all isDigit ds \<and>
               authority u = h @ '':'' @ ds)"
proof -
  have "localhostMatch (authority u) \<noteq> None \<longleftrightarrow>
     (\<exists>h ds. h \<in> {''localhost'', ''127.0.0.1'', ''0.0.0.0''} \<and> ds \<noteq> [] \<and> list_all isDigit ds \<and>
             authority u = h @ '':'' @ ds)"
    unfolding localhostMatch_def matchAlternatives_iff by simp
  then show ?thesis
    by (auto simp: canTunnel_def extractLocalHostUriMetaDataForPortMapping_def split: option.splits)
qed

lemma getTunnelFromMap_None_stored:
  "getTunnelFromMap s h p = None \<Longrightarrow> storedUnder s h p = None"
  by (auto simp add: getTunnelFromMap_def getOtherLocalhost_def storedUnder_def map_add_def
        split: option.splits if_splits)


lemma getTunnelHost_storedUnder:
  "getTunnelFromMap s h p =
     (case getTunnelHost s h p of None \<Rightarrow> None | Some k \<Rightarrow> storedUnder s k p)"
  by (auto simp add: getTunnelFromMap_def getTunnelHost_def getOtherLocalhost_def storedUnder_def
        map_add_def split: option.splits)

lemma withProvider_eq:
  "withProvider = (newTunnelService False)\<lparr>tunnelProvider := Some exampleProvider\<rparr>"
  by (simp add: withProvider_def setTunnelProvider_def newTunnelService_def)

lemma open_failed_1:
  "openTunnel (Some ()) (Some ''localhost'') 3000 None False False withProvider =
     (Some 0, withProvider\<lparr>tunnels := [''localhost'' \<mapsto> [3000 \<mapsto> \<lparr>refcount = 1, value' = 0\<rparr>]],
        nextPromise := 1, nextCall := 1,
        forwardPortCalls := [(\<lparr>remoteAddress = \<lparr>port = 3000, host = ''localhost''\<rparr>, localAddressPort = None,
            label = None, publicOption = Some False\<rparr>, \<lparr>elevationRequired = Some False\<rparr>)],
        waiting := [(0, OpenTunnelThen 0 ''localhost'' 3000)]\<rparr>)"
  by (simp add: withProvider_eq newTunnelService_def openTunnel_def retainOrCreateTunnel_def
        getTunnelFromMap_def getOtherLocalhost_def createWithProvider_def exampleProvider_def
        addTunnelToMap_def then'_def Let_def)

lemma removeEmpty_keeps:
  "storedUnder s h p = Some r \<Longrightarrow> removeEmptyTunnelFromMap h p s = s"
  by (auto simp add: removeEmptyTunnelFromMap_def storedUnder_def Let_def fun_upd_idem
        split: option.splits)

lemma storedUnder_then' [simp]: "storedUnder (then' q r s) h p = storedUnder s h p"
  by (simp add: storedUnder_def)


























lemma addTunnelToMap_fields [simp]:
  "disposedTunnels (addTunnelToMap h p q s) = disposedTunnels s"
  "waiting (addTunnelToMap h p q s) = waiting s"
  "microtasks (addTunnelToMap h p q s) = microtasks s"
  "nextCall (addTunnelToMap h p q s) = nextCall s"
  "promises (addTunnelToMap h p q s) = promises s"
  by (simp_all add: addTunnelToMap_def Let_def split: option.splits)

lemma retain_fields [simp]:
  "disposedTunnels (retain h p s) = disposedTunnels s"
  "waiting (retain h p s) = waiting s"
  "microtasks (retain h p s) = microtasks s"
  "nextCall (retain h p s) = nextCall s"
  "promises (retain h p s) = promises s"
  by (simp_all add: retain_def split: option.splits)

lemma createWithProvider_fields [simp]:
  "disposedTunnels (snd (createWithProvider pr h p lp e pub s)) = disposedTunnels s"
  "waiting (snd (createWithProvider pr h p lp e pub s)) = waiting s"
  "microtasks (snd (createWithProvider pr h p lp e pub s)) = microtasks s"
  "nextCall (snd (createWithProvider pr h p lp e pub s)) = nextCall s"
  "promises (snd (createWithProvider pr h p lp e pub s)) = promises s"
  by (simp_all add: createWithProvider_def Let_def)

lemma retainOrCreateTunnel_fields [simp]:
  "disposedTunnels (snd (retainOrCreateTunnel ap h p lp e pub s)) = disposedTunnels s"
  "waiting (snd (retainOrCreateTunnel ap h p lp e pub s)) = waiting s"
  "microtasks (snd (retainOrCreateTunnel ap h p lp e pub s)) = microtasks s"
  "nextCall (snd (retainOrCreateTunnel ap h p lp e pub s)) = nextCall s"
  "promises (snd (retainOrCreateTunnel ap h p lp e pub s)) = promises s"
  by (simp_all add: retainOrCreateTunnel_def split: option.splits)











lemma callbacks_then'_dispose [simp]:
  "disposeCallbacks (then' q TryDisposeThen s) = Suc (disposeCallbacks s)"
  by (simp add: then'_def disposeCallbacks_def split: option.splits)

lemma callbacks_then'_open [simp]:
  "disposeCallbacks (then' q (OpenTunnelThen c h p) s) = disposeCallbacks s"
  by (simp add: then'_def disposeCallbacks_def split: option.splits)

lemma callbacks_tunnels [simp]:
  "disposeCallbacks (s\<lparr>tunnels := m\<rparr>) = disposeCallbacks s"
  "disposeCallbacks (s\<lparr>nextCall := c\<rparr>) = disposeCallbacks s"
  "disposeCallbacks (s\<lparr>nextPromise := c\<rparr>) = disposeCallbacks s"
  "disposeCallbacks (s\<lparr>forwardPortCalls := f\<rparr>) = disposeCallbacks s"
  by (simp_all add: disposeCallbacks_def)


lemma callbacks_retainOrCreateTunnel [simp]:
  "disposeCallbacks (snd (retainOrCreateTunnel ap h p lp e pub s)) = disposeCallbacks s"
  by (simp add: disposeCallbacks_def)





lemma callbacks_then'_walk [simp]:
  "disposeCallbacks (then' q (DisposeThen vs) s) = disposeCallbacks s"
  by (simp add: then'_def disposeCallbacks_def split: option.splits)




















lemma run_append: "run (xs @ ys) s = run ys (run xs s)"
  by (simp add: run_def)

lemma run_Nil: "run [] s = s"
  by (simp add: run_def)

lemma run_Cons: "run (x # xs) s = run xs (step x s)"
  by (simp add: run_def)


lemma open_again:
  "snd (openTunnel (Some ()) (Some ''localhost'') 3000 None False False
     (withProvider\<lparr>tunnels := [''localhost'' \<mapsto> [3000 \<mapsto> \<lparr>refcount = 1, value' = 0\<rparr>]],
        nextPromise := 1, nextCall := 1,
        forwardPortCalls := [(\<lparr>remoteAddress = \<lparr>port = 3000, host = ''localhost''\<rparr>, localAddressPort = None,
            label = None, publicOption = Some False\<rparr>, \<lparr>elevationRequired = Some False\<rparr>)],
        waiting := [(0, OpenTunnelThen 0 ''localhost'' 3000)]\<rparr>)) =
   withProvider\<lparr>tunnels := [''localhost'' \<mapsto> [3000 \<mapsto> \<lparr>refcount = 2, value' = 0\<rparr>]],
        nextPromise := 1, nextCall := 2,
        forwardPortCalls := [(\<lparr>remoteAddress = \<lparr>port = 3000, host = ''localhost''\<rparr>, localAddressPort = None,
            label = None, publicOption = Some False\<rparr>, \<lparr>elevationRequired = Some False\<rparr>)],
        waiting := [(0, OpenTunnelThen 0 ''localhost'' 3000), (0, OpenTunnelThen 1 ''localhost'' 3000)]\<rparr>"
  by (simp add: openTunnel_def retainOrCreateTunnel_def getTunnelFromMap_def getTunnelHost_def
        isLocalhost_def LOCALHOST_ADDRESSES_def isAllInterfaces_def ALL_INTERFACES_ADDRESSES_def
        getOtherLocalhost_def retain_def Let_def storedUnder_def then'_def withProvider_eq
        newTunnelService_def)

lemma opened_twice_run:
  "run (openedTwiceRun t) (newTunnelService False) =
   withProvider\<lparr>tunnels := [''localhost'' \<mapsto> [3000 \<mapsto> \<lparr>refcount = 2, value' = 0\<rparr>]],
        nextPromise := 1, nextCall := 2,
        forwardPortCalls := [(\<lparr>remoteAddress = \<lparr>port = 3000, host = ''localhost''\<rparr>, localAddressPort = None,
            label = None, publicOption = Some False\<rparr>, \<lparr>elevationRequired = Some False\<rparr>)],
        promises := [0 \<mapsto> Some t],
        returned := [0 \<mapsto> Some (makeTunnel t), 1 \<mapsto> Some (makeTunnel t)],
        onTunnelOpened := [makeTunnel t, makeTunnel t],
        warnings := (if tunnelRemoteHost t \<noteq> ''localhost'' \<or> tunnelRemotePort t \<noteq> 3000
           then [''Created tunnel does not match requirements of requested tunnel. Host or port mismatch.'',
                 ''Created tunnel does not match requirements of requested tunnel. Host or port mismatch.'']
           else [])\<rparr>"
proof -
  have "run (openedTwiceRun t) (newTunnelService False) =
     runMicrotask (runMicrotask (resolvePromise 0 (Some t)
       (snd (openTunnel (Some ()) (Some ''localhost'') 3000 None False False
         (snd (openTunnel (Some ()) (Some ''localhost'') 3000 None False False withProvider))))))"
    by (simp add: run_def openedTwiceRun_def withProvider_def)
  also have "\<dots> = runMicrotask (runMicrotask (resolvePromise 0 (Some t)
     (withProvider\<lparr>tunnels := [''localhost'' \<mapsto> [3000 \<mapsto> \<lparr>refcount = 2, value' = 0\<rparr>]],
        nextPromise := 1, nextCall := 2,
        forwardPortCalls := [(\<lparr>remoteAddress = \<lparr>port = 3000, host = ''localhost''\<rparr>, localAddressPort = None,
            label = None, publicOption = Some False\<rparr>, \<lparr>elevationRequired = Some False\<rparr>)],
        waiting := [(0, OpenTunnelThen 0 ''localhost'' 3000), (0, OpenTunnelThen 1 ''localhost'' 3000)]\<rparr>)))"
    by (simp only: open_failed_1 snd_conv open_again)
  also have "\<dots> = withProvider\<lparr>tunnels := [''localhost'' \<mapsto> [3000 \<mapsto> \<lparr>refcount = 2, value' = 0\<rparr>]],
        nextPromise := 1, nextCall := 2,
        forwardPortCalls := [(\<lparr>remoteAddress = \<lparr>port = 3000, host = ''localhost''\<rparr>, localAddressPort = None,
            label = None, publicOption = Some False\<rparr>, \<lparr>elevationRequired = Some False\<rparr>)],
        promises := [0 \<mapsto> Some t],
        returned := [0 \<mapsto> Some (makeTunnel t), 1 \<mapsto> Some (makeTunnel t)],
        onTunnelOpened := [makeTunnel t, makeTunnel t],
        warnings := (if tunnelRemoteHost t \<noteq> ''localhost'' \<or> tunnelRemotePort t \<noteq> 3000
           then [''Created tunnel does not match requirements of requested tunnel. Host or port mismatch.'',
                 ''Created tunnel does not match requirements of requested tunnel. Host or port mismatch.'']
           else [])\<rparr>"
    by (simp add: resolvePromise_def runMicrotask_def openTunnelThen_def Let_def withProvider_eq
          newTunnelService_def)
  finally show ?thesis .
qed


lemma created_eq:
  "created = (newTunnelService False)\<lparr>tunnels := [''localhost'' \<mapsto> [3000 \<mapsto> \<lparr>refcount = 1, value' = 0\<rparr>]],
        nextPromise := 1,
        forwardPortCalls := [(\<lparr>remoteAddress = \<lparr>port = 3000, host = ''localhost''\<rparr>, localAddressPort = None,
            label = None, publicOption = Some False\<rparr>, \<lparr>elevationRequired = Some False\<rparr>)]\<rparr>"
  by (simp add: created_def createWithProvider_def exampleProvider_def Let_def addTunnelToMap_def
        newTunnelService_def)

subsection \<open>The terminal service\<close>

lemma find_id: "find (\<lambda>t. instanceId t = n) xs = Some t \<Longrightarrow> instanceId t = n"
  by (induction xs) (auto split: if_splits)

lemma hide_unknown: "getTerminalInstance s ident = None \<Longrightarrow> hide ident s = s"
proof (cases "getTerminalId s ident")
  case None
  then show ?thesis by (simp add: hide_def Let_def split: option.splits)
next
  case (Some n)
  assume "getTerminalInstance s ident = None"
  with Some have none: "getInstanceFromId s n = None" by (simp add: getTerminalInstance_def)
  show ?thesis
  proof (cases "getActiveInstance s")
    case None
    then show ?thesis by (simp add: hide_def Let_def)
  next
    case (Some inst)
    then obtain a where a: "activeInstanceId s = Some a" "getInstanceFromId s a = Some inst"
      by (auto simp add: getActiveInstance_def split: option.splits)
    then have "instanceId inst = a" by (auto simp add: getInstanceFromId_def dest: find_id)
    with a none have "instanceId inst \<noteq> n" by auto
    with Some \<open>getTerminalId s ident = Some n\<close> show ?thesis by (simp add: hide_def Let_def)
  qed
qed

lemma fold_instanceData_buffer:
  assumes "dataEventTracker s" "i \<in> bufferListeners s"
  shows "fold (instanceData i) ds s =
           (if ds = [] then s
            else s\<lparr>terminalBufferMap := (terminalBufferMap s)(i \<mapsto>
                     (case terminalBufferMap s i of None \<Rightarrow> ds | Some b \<Rightarrow> b @ ds))\<rparr>)"
  using assms
proof (induction ds arbitrary: s)
  case Nil
  then show ?case by simp
next
  case (Cons d ds)
  let ?s1 = "instanceData i d s"
  have s1: "?s1 = s\<lparr>terminalBufferMap := (terminalBufferMap s)(i \<mapsto>
                     (case terminalBufferMap s i of None \<Rightarrow> [d] | Some b \<Rightarrow> b @ [d]))\<rparr>"
    using Cons.prems by (simp add: instanceData_def bufferData_def)
  have p: "dataEventTracker ?s1" "i \<in> bufferListeners ?s1" using Cons.prems by (simp_all add: s1)
  show ?case
    using Cons.IH [OF p]
    by (cases "ds = []") (auto simp add: s1 split: option.splits)
qed

lemma conservation_flush:
  "forwardedData (flushBuffer j s) i @ bufferedData (flushBuffer j s) i =
     forwardedData s i @ bufferedData s i"
  by (cases "terminalBufferMap s j")
     (auto simp add: flushBuffer_def onTerminalData_def forwardedData_def bufferedData_def)

lemma conservation_stop:
  "forwardedData (stopBuffering j s) i @ bufferedData (stopBuffering j s) i =
     forwardedData s i @ bufferedData s i"
proof -
  have "forwardedData (stopBuffering j s) i = forwardedData (flushBuffer j s) i"
       "bufferedData (stopBuffering j s) i = bufferedData (flushBuffer j s) i"
    by (simp_all add: stopBuffering_def Let_def forwardedData_def bufferedData_def)
  then show ?thesis by (simp add: conservation_flush)
qed

lemma conservation_step:
  "forwardedData (terminalStep e s) i @ bufferedData (terminalStep e s) i =
     forwardedData s i @ bufferedData s i @ observedData s i e"
proof (cases e)
  case (InstanceCreated inst)
  then show ?thesis
    by (simp add: instanceCreated_def Let_def registerInstance_def startBuffering_def
          forwardedData_def bufferedData_def observedData_def)
next
  case (InstanceDisposed j)
  let ?s1 = "s\<lparr>terminalInstances := filter (\<lambda>t. instanceId t \<noteq> j) (terminalInstances s),
                  activeInstanceId := (if activeInstanceId s = Some j then None else activeInstanceId s),
                  acceptTerminalClosed := acceptTerminalClosed s @ [j]\<rparr>"
  have f: "forwardedData ?s1 i = forwardedData s i" "bufferedData ?s1 i = bufferedData s i"
    by (simp_all add: forwardedData_def bufferedData_def)
  show ?thesis
    using InstanceDisposed f conservation_stop [of j ?s1 i]
    by (simp add: instanceDisposed_def Let_def observedData_def)
next
  case (InstanceData j d)
  then show ?thesis
    by (auto simp add: instanceData_def bufferData_def forwardedData_def bufferedData_def
          observedData_def split: option.splits)
next
  case (FlushTimer j)
  then show ?thesis by (simp add: conservation_flush observedData_def)
qed

lemma fold_registerInstance:
  "bufferListeners (fold registerInstance ts s) = bufferListeners s \<union> instanceId ` set ts"
  by (induction ts arbitrary: s) (auto simp add: registerInstance_def startBuffering_def)

lemma fold_onTerminalData_listeners:
  "bufferListeners (fold (onTerminalData i) ds s) = bufferListeners s"
  by (induction ds arbitrary: s) (auto simp add: onTerminalData_def)

lemma fold_initial_listeners:
  "bufferListeners (fold (\<lambda>t s'. (case initialDataEvents t of
                           None \<Rightarrow> s'
                         | Some ds \<Rightarrow> fold (onTerminalData (instanceId t)) ds s')) ts s) = bufferListeners s"
  by (induction ts arbitrary: s) (auto simp add: fold_onTerminalData_listeners split: option.splits)

lemma fold_registerInstance_tracker:
  "dataEventTracker (fold registerInstance ts s) = dataEventTracker s"
  by (induction ts arbitrary: s) (auto simp add: registerInstance_def startBuffering_def)

lemma fold_onTerminalData_tracker:
  "dataEventTracker (fold (onTerminalData i) ds s) = dataEventTracker s"
  by (induction ds arbitrary: s) (auto simp add: onTerminalData_def)

lemma fold_initial_tracker:
  "dataEventTracker (fold (\<lambda>t s'. (case initialDataEvents t of
                           None \<Rightarrow> s'
                         | Some ds \<Rightarrow> fold (onTerminalData (instanceId t)) ds s')) ts s) = dataEventTracker s"
  by (induction ts arbitrary: s) (auto simp add: fold_onTerminalData_tracker split: option.splits)

lemma oneTerminal_eq:
  "oneTerminal = newTerminalService
     \<lparr>extHostTerminalIds := [''a-uuid'' \<mapsto> 1],
      terminalInstances := [\<lparr>instanceId = 1, sentText = [], initialDataEvents = None\<rparr>],
      nextInstanceId := 2, dataEventTracker := True, bufferListeners := {1}\<rparr>"
  by (simp add: oneTerminal_def startSendingDataEvents_def createTerminal_def instanceCreated_def
        newTerminalDataEventTracker_def registerInstance_def startBuffering_def Let_def
        newTerminalService_def)

section \<open>The claims\<close>

subsection \<open>C1: opening the same tunnel twice\<close>



subsection \<open>C2: disposing a tunnel that was opened twice\<close>

text \<open>
  C2, as the code has it: the \<open>dispose\<close> of the returned object looks the entry up under
  the host and port that the tunnel itself reports, so the entry has to be stored there.
  Let the entry under the tunnel's own \<open>tunnelRemoteHost\<close> and \<open>tunnelRemotePort\<close> have
  refcount 2, its promise resolved
  to the tunnel \<open>t\<close> (so that \<open>openTunnel\<close> returned \<open>makeTunnel t\<close> to both callers).
  The first \<open>dispose\<close> of the returned object changes nothing but the refcount, which
  becomes 1: the entry stays, no callback is registered, nothing is disposed and no
  event is fired. The second \<open>dispose\<close> brings the refcount to 0 and hands the entry to
  \<open>tryDisposeTunnel\<close>: the entry is removed from the map and the dispose callback is queued
  with the tunnel; when it runs (as the next microtask, if none was queued before), the
  underlying tunnel is disposed and \<open>onTunnelClosed\<close> fires with the tunnel's host and
  port.
\<close>

theorem dispose_twice:
  assumes "tunnels s (tunnelRemoteHost t) = Some pm"
      and "pm (tunnelRemotePort t) = Some r"
      and "refcount r = 2"
      and "promises s (value' r) = Some (Some t)"
  shows "disposeHandle (makeTunnel t) s =
           s\<lparr>tunnels := (tunnels s)(tunnelRemoteHost t \<mapsto> pm(tunnelRemotePort t \<mapsto> r\<lparr>refcount := 1\<rparr>))\<rparr>
       \<and> disposeHandle (makeTunnel t) (disposeHandle (makeTunnel t) s) =
           tryDisposeTunnel (tunnelRemoteHost t) (tunnelRemotePort t) (r\<lparr>refcount := 0\<rparr>)
             (s\<lparr>tunnels := (tunnels s)(tunnelRemoteHost t \<mapsto> pm(tunnelRemotePort t \<mapsto> r\<lparr>refcount := 0\<rparr>))\<rparr>)
       \<and> disposeHandle (makeTunnel t) (disposeHandle (makeTunnel t) s) =
           s\<lparr>tunnels := (tunnels s)(tunnelRemoteHost t \<mapsto> pm(tunnelRemotePort t := None)),
             microtasks := microtasks s @ [(TryDisposeThen, Some t)]\<rparr>
       \<and> (microtasks s = [] \<longrightarrow>
            runMicrotask (disposeHandle (makeTunnel t) (disposeHandle (makeTunnel t) s)) =
              s\<lparr>tunnels := (tunnels s)(tunnelRemoteHost t \<mapsto> pm(tunnelRemotePort t := None)),
                disposedTunnels := disposedTunnels s @ [t],
                onTunnelClosed := onTunnelClosed s @
                  [\<lparr>port = tunnelRemotePort t, host = tunnelRemoteHost t\<rparr>]\<rparr>)"
  using assms
  by (simp add: disposeHandle_def makeTunnel_def tryDisposeTunnel_def then'_def Let_def
        tryDisposeThen_def runMicrotask_def)

theorem dispose_twice_witness:
  "tunnels openedTwice (tunnelRemoteHost exampleTunnel) = Some [3000 \<mapsto> \<lparr>refcount = 2, value' = 0\<rparr>]
   \<and> storedUnder (disposeHandle (makeTunnel exampleTunnel) openedTwice) ''localhost'' 3000 = Some \<lparr>refcount = 1, value' = 0\<rparr>
   \<and> storedUnder (disposeHandle (makeTunnel exampleTunnel) (disposeHandle (makeTunnel exampleTunnel) openedTwice)) ''localhost'' 3000 = None
   \<and> onTunnelClosed (runMicrotask (disposeHandle (makeTunnel exampleTunnel) (disposeHandle (makeTunnel exampleTunnel) openedTwice)))
       = [\<lparr>port = 3000, host = ''localhost''\<rparr>]"
proof -
  have a: "tunnels openedTwice (tunnelRemoteHost exampleTunnel) = Some [3000 \<mapsto> \<lparr>refcount = 2, value' = 0\<rparr>]"
    by (simp add: openedTwice_def exampleTunnel_def newTunnelService_def)
  have b: "[3000 \<mapsto> \<lparr>refcount = 2, value' = 0\<rparr>] (tunnelRemotePort exampleTunnel) = Some \<lparr>refcount = 2, value' = 0\<rparr>"
    by (simp add: exampleTunnel_def)
  have c: "refcount \<lparr>refcount = 2, value' = 0\<rparr> = 2" by simp
  have d: "promises openedTwice (value' \<lparr>refcount = 2, value' = 0\<rparr>) = Some (Some exampleTunnel)"
    by (simp add: openedTwice_def newTunnelService_def)
  note th = dispose_twice [OF a b c d]
  have e1: "storedUnder (disposeHandle (makeTunnel exampleTunnel) openedTwice) ''localhost'' 3000 = Some \<lparr>refcount = 1, value' = 0\<rparr>"
    unfolding conjunct1 [OF th] by (simp add: storedUnder_def exampleTunnel_def)
  have e2: "storedUnder (disposeHandle (makeTunnel exampleTunnel) (disposeHandle (makeTunnel exampleTunnel) openedTwice)) ''localhost'' 3000 = None"
    unfolding conjunct1 [OF conjunct2 [OF conjunct2 [OF th]]] by (simp add: storedUnder_def exampleTunnel_def)
  have idle: "microtasks openedTwice = []" by (simp add: openedTwice_def newTunnelService_def)
  have e3: "onTunnelClosed (runMicrotask (disposeHandle (makeTunnel exampleTunnel) (disposeHandle (makeTunnel exampleTunnel) openedTwice)))
       = [\<lparr>port = 3000, host = ''localhost''\<rparr>]"
    unfolding mp [OF conjunct2 [OF conjunct2 [OF conjunct2 [OF th]]] idle]
    by (simp add: openedTwice_def newTunnelService_def exampleTunnel_def)
  from a e1 e2 e3 show ?thesis by blast
qed

text \<open>
  C2 as stated fails where the tunnel reports another host than the one it was asked
  for, which \<open>openTunnel\<close> warns about and lets through. The tunnel of \<open>localhost\<close> and
  port 3000 is opened twice and the provider's promise resolves to a tunnel that reports
  \<open>127.0.0.1\<close>: the entry is under \<open>localhost\<close> with refcount 2, both callers have got
  the same object, the two warnings have been logged, and \<open>dispose\<close> on that object, once
  or twice, changes nothing: the refcount stays 2, nothing is disposed, no event fires.
\<close>

theorem dispose_mismatched_host:
  "storedUnder (run (openedTwiceRun mismatchedTunnel) (newTunnelService False)) ''localhost'' 3000 =
       Some \<lparr>refcount = 2, value' = 0\<rparr>
   \<and> promises (run (openedTwiceRun mismatchedTunnel) (newTunnelService False)) 0 = Some (Some mismatchedTunnel)
   \<and> returned (run (openedTwiceRun mismatchedTunnel) (newTunnelService False)) 0 =
       Some (Some (makeTunnel mismatchedTunnel))
   \<and> returned (run (openedTwiceRun mismatchedTunnel) (newTunnelService False)) 1 =
       Some (Some (makeTunnel mismatchedTunnel))
   \<and> length (warnings (run (openedTwiceRun mismatchedTunnel) (newTunnelService False))) = 2
   \<and> microtasks (run (openedTwiceRun mismatchedTunnel) (newTunnelService False)) = []
   \<and> disposeHandle (makeTunnel mismatchedTunnel) (run (openedTwiceRun mismatchedTunnel) (newTunnelService False)) =
       run (openedTwiceRun mismatchedTunnel) (newTunnelService False)
   \<and> disposeHandle (makeTunnel mismatchedTunnel)
         (disposeHandle (makeTunnel mismatchedTunnel) (run (openedTwiceRun mismatchedTunnel) (newTunnelService False))) =
       run (openedTwiceRun mismatchedTunnel) (newTunnelService False)
   \<and> disposedTunnels (run (openedTwiceRun mismatchedTunnel @
         [DisposeHandle (makeTunnel mismatchedTunnel), DisposeHandle (makeTunnel mismatchedTunnel), RunMicrotask])
         (newTunnelService False)) = []
   \<and> onTunnelClosed (run (openedTwiceRun mismatchedTunnel @
         [DisposeHandle (makeTunnel mismatchedTunnel), DisposeHandle (makeTunnel mismatchedTunnel), RunMicrotask])
         (newTunnelService False)) = []"
proof -
  let ?s = "run (openedTwiceRun mismatchedTunnel) (newTunnelService False)"
  have a: "storedUnder ?s ''localhost'' 3000 = Some \<lparr>refcount = 2, value' = 0\<rparr>"
    by (simp add: opened_twice_run storedUnder_def)
  have b: "promises ?s 0 = Some (Some mismatchedTunnel)"
    by (simp add: opened_twice_run)
  have c: "returned ?s 0 = Some (Some (makeTunnel mismatchedTunnel))"
          "returned ?s 1 = Some (Some (makeTunnel mismatchedTunnel))"
    by (simp_all add: opened_twice_run)
  have "tunnelRemoteHost mismatchedTunnel \<noteq> ''localhost''"
    by (simp add: mismatchedTunnel_def)
  then have w: "length (warnings ?s) = 2"
    by (simp add: opened_twice_run)
  have m: "microtasks ?s = []"
    unfolding opened_twice_run by (simp add: withProvider_eq newTunnelService_def)
  have "tunnelRemoteHost (makeTunnel mismatchedTunnel) = ''127.0.0.1''"
    by (simp add: makeTunnel_def mismatchedTunnel_def)
  then have "tunnels ?s (tunnelRemoteHost (makeTunnel mismatchedTunnel)) = None"
    by (simp add: opened_twice_run)
  then have d: "disposeHandle (makeTunnel mismatchedTunnel) ?s = ?s"
    by (simp add: disposeHandle_def)
  then have e: "disposeHandle (makeTunnel mismatchedTunnel) (disposeHandle (makeTunnel mismatchedTunnel) ?s) = ?s"
    by simp
  have r: "run (openedTwiceRun mismatchedTunnel @
         [DisposeHandle (makeTunnel mismatchedTunnel), DisposeHandle (makeTunnel mismatchedTunnel), RunMicrotask])
         (newTunnelService False) = ?s"
  proof -
    have "runMicrotask ?s = ?s" by (simp add: runMicrotask_def m)
    then show ?thesis by (simp only: run_append run_Cons run_Nil step.simps d)
  qed
  have f: "disposedTunnels ?s = []" "onTunnelClosed ?s = []"
    unfolding opened_twice_run by (simp_all add: withProvider_eq newTunnelService_def)
  show ?thesis
    unfolding r by (rule conjI [OF a conjI [OF b conjI [OF c(1) conjI [OF c(2) conjI [OF w
          conjI [OF m conjI [OF d conjI [OF e conjI [OF f(1) f(2)]]]]]]]]])
qed

subsection \<open>C3: the refcount invariant\<close>




subsection \<open>C4: closing a tunnel\<close>

text \<open>
  C4, as the code has it. Where the host and port have no entry, \<open>closeTunnel\<close> changes
  nothing. Where they have one, \<open>closeTunnel\<close> sets its refcount to 0, whatever it was,
  and hands it to \<open>tryDisposeTunnel\<close>: the entry is removed from the map at once and the
  dispose callback is registered on the entry's promise (queued if the promise has
  settled, waiting if it is pending). Run with a tunnel, the callback disposes the
  tunnel and then fires \<open>onTunnelClosed\<close> with the tunnel's own host and port; run with
  \<open>undefined\<close> (the creation failed), it disposes nothing and fires nothing.
\<close>

theorem closeTunnel_forces_disposal:
  "(storedUnder s h p = None \<longrightarrow> closeTunnel h p s = s)
   \<and> (tunnels s h = Some pm \<and> pm p = Some r \<longrightarrow>
        closeTunnel h p s =
          tryDisposeTunnel h p (r\<lparr>refcount := 0\<rparr>)
            (s\<lparr>tunnels := (tunnels s)(h \<mapsto> pm(p \<mapsto> r\<lparr>refcount := 0\<rparr>))\<rparr>)
      \<and> closeTunnel h p s =
          then' (value' r) TryDisposeThen (s\<lparr>tunnels := (tunnels s)(h \<mapsto> pm(p := None))\<rparr>)
      \<and> storedUnder (closeTunnel h p s) h p = None
      \<and> (\<forall>v. promises s (value' r) = Some v \<longrightarrow>
            microtasks (closeTunnel h p s) = microtasks s @ [(TryDisposeThen, v)]
            \<and> waiting (closeTunnel h p s) = waiting s)
      \<and> (promises s (value' r) = None \<longrightarrow>
            waiting (closeTunnel h p s) = waiting s @ [(value' r, TryDisposeThen)]
            \<and> microtasks (closeTunnel h p s) = microtasks s))
   \<and> runReaction TryDisposeThen (Some t) x =
        x\<lparr>disposedTunnels := disposedTunnels x @ [t],
          onTunnelClosed := onTunnelClosed x @
            [\<lparr>port = tunnelRemotePort t, host = tunnelRemoteHost t\<rparr>]\<rparr>
   \<and> runReaction TryDisposeThen None x = x"
  by (auto simp add: closeTunnel_def storedUnder_def tryDisposeTunnel_def Let_def then'_def
        tryDisposeThen_def split: option.splits)

theorem closeTunnel_forces_disposal_witness:
  "tunnels openedTwice ''localhost'' = Some [3000 \<mapsto> \<lparr>refcount = 2, value' = 0\<rparr>]
   \<and> storedUnder openedTwice ''example.com'' 80 = None
   \<and> closeTunnel ''example.com'' 80 openedTwice = openedTwice
   \<and> storedUnder (closeTunnel ''localhost'' 3000 openedTwice) ''localhost'' 3000 = None
   \<and> microtasks (closeTunnel ''localhost'' 3000 openedTwice) = [(TryDisposeThen, Some exampleTunnel)]
   \<and> onTunnelClosed (runMicrotask (closeTunnel ''localhost'' 3000 openedTwice)) =
       [\<lparr>port = 3000, host = ''localhost''\<rparr>]"
proof -
  have a: "tunnels openedTwice ''localhost'' = Some [3000 \<mapsto> \<lparr>refcount = 2, value' = 0\<rparr>]"
    by (simp add: openedTwice_def newTunnelService_def)
  have b: "[3000 \<mapsto> \<lparr>refcount = 2, value' = 0\<rparr>] (3000::int) = Some \<lparr>refcount = 2, value' = 0\<rparr>"
    by simp
  have c: "storedUnder openedTwice ''example.com'' 80 = None"
    by (simp add: storedUnder_def openedTwice_def newTunnelService_def)
  have pr: "promises openedTwice (value' \<lparr>refcount = 2, value' = 0\<rparr>) = Some (Some exampleTunnel)"
    by (simp add: openedTwice_def newTunnelService_def)
  have mt: "microtasks openedTwice = []" by (simp add: openedTwice_def newTunnelService_def)
  note th1 = closeTunnel_forces_disposal [where s = openedTwice and h = "''example.com''" and p = 80]
  note th2 = closeTunnel_forces_disposal [where s = openedTwice and h = "''localhost''" and p = 3000
      and pm = "[3000 \<mapsto> \<lparr>refcount = 2, value' = 0\<rparr>]" and r = "\<lparr>refcount = 2, value' = 0\<rparr>"
      and t = exampleTunnel]
  from th1 c have d: "closeTunnel ''example.com'' 80 openedTwice = openedTwice" by blast
  from th2 a b have e: "storedUnder (closeTunnel ''localhost'' 3000 openedTwice) ''localhost'' 3000 = None"
    by blast
  from th2 a b pr have "microtasks (closeTunnel ''localhost'' 3000 openedTwice) =
      microtasks openedTwice @ [(TryDisposeThen, Some exampleTunnel)]" by blast
  with mt have f: "microtasks (closeTunnel ''localhost'' 3000 openedTwice) =
      [(TryDisposeThen, Some exampleTunnel)]" by simp
  from th2 a b have g: "closeTunnel ''localhost'' 3000 openedTwice =
      then' (value' \<lparr>refcount = 2, value' = 0\<rparr>) TryDisposeThen
        (openedTwice\<lparr>tunnels := (tunnels openedTwice)(''localhost'' \<mapsto>
           [3000 \<mapsto> \<lparr>refcount = 2, value' = 0\<rparr>](3000 := None))\<rparr>)" by blast
  have h: "onTunnelClosed (runMicrotask (closeTunnel ''localhost'' 3000 openedTwice)) =
       [\<lparr>port = 3000, host = ''localhost''\<rparr>]"
    unfolding g
    by (simp add: then'_def openedTwice_def newTunnelService_def runMicrotask_def tryDisposeThen_def
          exampleTunnel_def)
  from a c d e f h show ?thesis by blast
qed

text \<open>
  The claim as stated fails: the entry of the running example is there, \<open>closeTunnel\<close>
  removes it, every callback has run, and neither was a tunnel disposed nor did
  \<open>onTunnelClosed\<close> fire, the promise having resolved to \<open>undefined\<close>.
\<close>

theorem closeTunnel_without_event:
  "storedUnder created ''localhost'' 3000 = Some \<lparr>refcount = 1, value' = 0\<rparr>
   \<and> storedUnder (run closedWhilePending created) ''localhost'' 3000 = None
   \<and> promises (run closedWhilePending created) 0 = Some None
   \<and> microtasks (run closedWhilePending created) = []
   \<and> waiting (run closedWhilePending created) = []
   \<and> disposedTunnels (run closedWhilePending created) = []
   \<and> onTunnelClosed (run closedWhilePending created) = []"
  by (simp add: run_def closedWhilePending_def created_eq)
     (simp add: newTunnelService_def closeTunnel_def tryDisposeTunnel_def then'_def Let_def
        resolvePromise_def runMicrotask_def tryDisposeThen_def storedUnder_def)

subsection \<open>C5: a tunnel that could not be created\<close>

text \<open>
  C5, evaluated. The provider's promise resolves to \<open>undefined\<close>: the caller's promise
  resolves to \<open>undefined\<close>, no callback is left to run, and the entry of the host and
  port is still in the map, with refcount 1 and the resolved promise. On the state that
  \<open>createWithProvider\<close> leaves, \<open>removeEmptyTunnelFromMap\<close> for the entry's host and port
  changes nothing.
\<close>

theorem failed_open_leaves_entry:
  "returned (run failedOpen withProvider) 0 = Some None
   \<and> storedUnder (run failedOpen withProvider) ''localhost'' 3000 = Some \<lparr>refcount = 1, value' = 0\<rparr>
   \<and> promises (run failedOpen withProvider) 0 = Some None
   \<and> microtasks (run failedOpen withProvider) = []
   \<and> waiting (run failedOpen withProvider) = []
   \<and> storedUnder created ''localhost'' 3000 = Some \<lparr>refcount = 1, value' = 0\<rparr>
   \<and> removeEmptyTunnelFromMap ''localhost'' 3000 created = created"
proof -
  have a: "returned (run failedOpen withProvider) 0 = Some None
   \<and> storedUnder (run failedOpen withProvider) ''localhost'' 3000 = Some \<lparr>refcount = 1, value' = 0\<rparr>
   \<and> promises (run failedOpen withProvider) 0 = Some None
   \<and> microtasks (run failedOpen withProvider) = []
   \<and> waiting (run failedOpen withProvider) = []"
    by (simp add: run_def failedOpen_def open_failed_1)
       (simp add: withProvider_eq newTunnelService_def resolvePromise_def runMicrotask_def
          openTunnelThen_def removeEmptyTunnelFromMap_def storedUnder_def Let_def)
  have st: "storedUnder created ''localhost'' 3000 = Some \<lparr>refcount = 1, value' = 0\<rparr>"
    by (simp add: created_eq storedUnder_def newTunnelService_def)
  have b: "removeEmptyTunnelFromMap ''localhost'' 3000 created = created"
    by (rule removeEmpty_keeps [OF st])
  from a st b show ?thesis by simp
qed

subsection \<open>C6: the two names of the local host\<close>

text \<open>
  C6. A query for \<open>localhost\<close> finds the entry stored under \<open>127.0.0.1\<close> for the port,
  and otherwise the one stored under \<open>localhost\<close>; a query for \<open>127.0.0.1\<close> finds the
  entry stored under \<open>localhost\<close>, and otherwise the one stored under \<open>127.0.0.1\<close> (when
  both hosts have the port, the entry of the other host is the one returned). A query
  for any other host finds exactly the entry stored under that host.
\<close>

theorem getTunnelFromMap_aliases:
  "getTunnelFromMap s ''localhost'' p =
     (case storedUnder s ''127.0.0.1'' p of Some r \<Rightarrow> Some r | None \<Rightarrow> storedUnder s ''localhost'' p)
   \<and> getTunnelFromMap s ''127.0.0.1'' p =
     (case storedUnder s ''localhost'' p of Some r \<Rightarrow> Some r | None \<Rightarrow> storedUnder s ''127.0.0.1'' p)
   \<and> (h \<noteq> ''localhost'' \<and> h \<noteq> ''127.0.0.1'' \<longrightarrow> getTunnelFromMap s h p = storedUnder s h p)"
  by (simp add: getTunnelFromMap_def getOtherLocalhost_def storedUnder_def map_add_def
           split: option.splits)

theorem getTunnelFromMap_aliases_witness:
  "getTunnelFromMap openedTwice ''127.0.0.1'' 3000 = Some \<lparr>refcount = 2, value' = 0\<rparr>
   \<and> getTunnelFromMap openedTwice ''localhost'' 3000 = Some \<lparr>refcount = 2, value' = 0\<rparr>
   \<and> ''example.com'' \<noteq> ''localhost'' \<and> ''example.com'' \<noteq> ''127.0.0.1''
   \<and> getTunnelFromMap openedTwice ''example.com'' 3000 = None"
  using getTunnelFromMap_aliases [of openedTwice 3000 "''example.com''"]
  by (simp add: storedUnder_def openedTwice_def newTunnelService_def)

subsection \<open>C7: privileged ports and elevation\<close>

text \<open>
  C7. \<open>isPortPrivileged\<close> is true exactly when the operating system is not Windows and
  the port is below 1024, the operating system being the argument \<open>os\<close> when it is given
  and the platform the code runs on otherwise. \<open>createWithProvider\<close> calls \<open>forwardPort\<close>
  once, with \<open>elevationRequired\<close> set to \<open>isPortPrivileged\<close> of the preferred local port
  (\<open>localPort\<close>, or \<open>remotePort\<close> when there is none) if \<open>elevateIfNeeded\<close> is true, and
  to false otherwise.
\<close>

theorem isPortPrivileged_elevation:
  "isPortPrivileged w p (Some os) = (os \<noteq> Windows \<and> p < 1024)
   \<and> isPortPrivileged w p None = (\<not> w \<and> p < 1024)
   \<and> forwardPortCalls (snd (createWithProvider provider h rp lp e pub s)) =
       forwardPortCalls s @
         [(\<lparr>remoteAddress = \<lparr>port = rp, host = h\<rparr>, localAddressPort = lp, label = None,
            publicOption = Some pub\<rparr>,
           \<lparr>elevationRequired =
              Some (if e then isPortPrivileged (isWindows s) (case lp of None \<Rightarrow> rp | Some l \<Rightarrow> l) None
                    else False)\<rparr>)]
   \<and> map (elevationRequired \<circ> snd)
         (forwardPortCalls (snd (createWithProvider provider h rp lp False pub s))) =
       map (elevationRequired \<circ> snd) (forwardPortCalls s) @ [Some False]"
  by (cases os) (simp_all add: isPortPrivileged_def truthyOs_def createWithProvider_def Let_def
        addTunnelToMap_def split: option.splits)

theorem isPortPrivileged_elevation_witness:
  "isPortPrivileged False 80 (Some Linux) \<and> \<not> isPortPrivileged False 80 (Some Windows)
   \<and> \<not> isPortPrivileged False 8080 (Some Linux) \<and> \<not> isPortPrivileged True 80 None
   \<and> map (elevationRequired \<circ> snd)
       (forwardPortCalls (snd (createWithProvider exampleProvider ''localhost'' 80 None True False
          (newTunnelService False)))) = [Some True]"
  using isPortPrivileged_elevation [of False 80 Linux exampleProvider "''localhost''" 80 None True False "newTunnelService False"]
    isPortPrivileged_elevation [of False 80 Windows exampleProvider "''localhost''" 80 None True False "newTunnelService False"]
    isPortPrivileged_elevation [of False 8080 Linux exampleProvider "''localhost''" 80 None True False "newTunnelService False"]
    isPortPrivileged_elevation [of True 80 Linux exampleProvider "''localhost''" 80 None True False "newTunnelService False"]
  by (simp add: newTunnelService_def)

subsection \<open>C8: terminals that are not known\<close>

text \<open>
  C8, as the code has it. An identifier that is a string absent from
  \<open>extHostTerminalIds\<close>, or a number with no instance, resolves to no terminal, and for
  every identifier that resolves to no terminal \<open>$sendText\<close>, \<open>$dispose\<close>, \<open>$show\<close> and
  \<open>$hide\<close> leave the state as it is. For a terminal id with no entry in
  \<open>terminalProcessProxies\<close>, the methods \<open>$sendProcessTitle\<close>, \<open>$sendProcessData\<close>,
  \<open>$sendProcessReady\<close>, \<open>$sendProcessExit\<close>, \<open>$sendOverrideDimensions\<close>,
  \<open>$sendProcessInitialCwd\<close> and \<open>$sendProcessCwd\<close> leave the state as it is, the log
  included; the answer to a latency request logs ``Unknown terminal'' with the id and
  does nothing else, and so does \<open>$sendResolvedLaunchConfig\<close> when the terminal service
  has an instance of that id (it does nothing at all when there is none).
\<close>

theorem unknown_terminal_noop:
  "(extHostTerminalIds s u = None \<longrightarrow> getTerminalInstance s (StringId u) = None)
   \<and> (getInstanceFromId s n = None \<longrightarrow> getTerminalInstance s (NumberId n) = None)
   \<and> (getTerminalInstance s ident = None \<longrightarrow>
        sendText ident txt addNewLine s = s \<and> dispose ident s = s
        \<and> show' ident preserveFocus s = s \<and> hide ident s = s)
   \<and> (terminalProcessProxies s n = None \<longrightarrow>
        sendProcessTitle n title s = s \<and> sendProcessData n d s = s
        \<and> sendProcessReady n pid cwd s = s \<and> sendProcessExit n exitCode s = s
        \<and> sendOverrideDimensions n dimensions s = s
        \<and> sendProcessInitialCwd n cwd s = s \<and> sendProcessCwd n cwd s = s
        \<and> onRequestLatencyDone n elapsed s =
            s\<lparr>errorLog := errorLog s @ [''Unknown terminal: '' @ showNat n]\<rparr>
        \<and> sendResolvedLaunchConfig n config s =
            (if getInstanceFromId s n = None then s
             else s\<lparr>errorLog := errorLog s @ [''Unknown terminal: '' @ showNat n]\<rparr>))"
proof -
  have a: "extHostTerminalIds s u = None \<longrightarrow> getTerminalInstance s (StringId u) = None"
    by (simp add: getTerminalInstance_def getTerminalId_def)
  have b: "getInstanceFromId s n = None \<longrightarrow> getTerminalInstance s (NumberId n) = None"
    by (simp add: getTerminalInstance_def getTerminalId_def)
  have c: "getTerminalInstance s ident = None \<longrightarrow>
        sendText ident txt addNewLine s = s \<and> dispose ident s = s
        \<and> show' ident preserveFocus s = s \<and> hide ident s = s"
    by (simp add: sendText_def dispose_def show'_def hide_unknown)
  have d: "terminalProcessProxies s n = None \<longrightarrow>
        sendProcessTitle n title s = s \<and> sendProcessData n d s = s
        \<and> sendProcessReady n pid cwd s = s \<and> sendProcessExit n exitCode s = s
        \<and> sendOverrideDimensions n dimensions s = s
        \<and> sendProcessInitialCwd n cwd s = s \<and> sendProcessCwd n cwd s = s
        \<and> onRequestLatencyDone n elapsed s =
            s\<lparr>errorLog := errorLog s @ [''Unknown terminal: '' @ showNat n]\<rparr>
        \<and> sendResolvedLaunchConfig n config s =
            (if getInstanceFromId s n = None then s
             else s\<lparr>errorLog := errorLog s @ [''Unknown terminal: '' @ showNat n]\<rparr>)"
    by (auto simp add: sendProcessTitle_def sendProcessData_def sendProcessReady_def sendProcessExit_def
          sendOverrideDimensions_def sendProcessInitialCwd_def sendProcessCwd_def emitOn_def
          onRequestLatencyDone_def sendResolvedLaunchConfig_def getTerminalProcess_def
          split: option.splits)
  show ?thesis by (rule conjI [OF a conjI [OF b conjI [OF c d]]])
qed

theorem unknown_terminal_noop_witness:
  "extHostTerminalIds newTerminalService ''a-uuid'' = None
   \<and> getTerminalInstance newTerminalService (StringId ''a-uuid'') = None
   \<and> sendText (StringId ''a-uuid'') ''ls'' True newTerminalService = newTerminalService
   \<and> hide (StringId ''a-uuid'') newTerminalService = newTerminalService
   \<and> terminalProcessProxies newTerminalService 7 = None
   \<and> sendProcessData 7 ''ls'' newTerminalService = newTerminalService
   \<and> errorLog (onRequestLatencyDone 7 12 newTerminalService) = [''Unknown terminal: 7'']"
proof -
  have a: "extHostTerminalIds newTerminalService ''a-uuid'' = None"
    by (simp add: newTerminalService_def)
  have b: "terminalProcessProxies newTerminalService 7 = None"
    by (simp add: newTerminalService_def)
  note th = unknown_terminal_noop [of newTerminalService "''a-uuid''" 7 "StringId ''a-uuid''" "''ls''" True
      False "''''" "''ls''" 0 "''/''" None None 12 "''''"]
  from th a have c: "getTerminalInstance newTerminalService (StringId ''a-uuid'') = None" by blast
  from th c have d: "sendText (StringId ''a-uuid'') ''ls'' True newTerminalService = newTerminalService"
     "hide (StringId ''a-uuid'') newTerminalService = newTerminalService" by blast+
  from th b have e: "sendProcessData 7 ''ls'' newTerminalService = newTerminalService" by blast
  from th b have "onRequestLatencyDone 7 12 newTerminalService =
      newTerminalService\<lparr>errorLog := errorLog newTerminalService @ [''Unknown terminal: '' @ showNat 7]\<rparr>"
    by blast
  then have f: "errorLog (onRequestLatencyDone 7 12 newTerminalService) = [''Unknown terminal: 7'']"
    by (simp add: newTerminalService_def showNat.simps)
  from a b c d e f show ?thesis by blast
qed

text \<open>
  The claim as stated fails: \<open>$sendProcessData\<close> for a terminal id with no proxy logs
  nothing.
\<close>

theorem sendProcessData_unknown_silent:
  "terminalProcessProxies newTerminalService 7 = None
   \<and> errorLog (sendProcessData 7 ''ls'' newTerminalService) = []
   \<and> sendProcessData 7 ''ls'' newTerminalService = newTerminalService"
  by (simp add: newTerminalService_def sendProcessData_def emitOn_def)

subsection \<open>C9: buffering of terminal data\<close>

text \<open>
  C9. While a terminal is listened to and its buffer is empty, any data events, one or
  more, followed by a flush are forwarded as a single \<open>$acceptTerminalProcessData\<close> call
  that carries the events' data joined in the order of emission; nothing is forwarded
  before the flush and nothing stays in the buffer after it. For every terminal and every
  event of the terminal service (an instance created or disposed, a data event of any
  terminal, a timer), what has been forwarded followed by what is buffered grows by
  exactly the data the buffer took in: nothing is lost, repeated or reordered. With the
  tracker on, an instance that is created is listened to, and an instance that is
  disposed is flushed and no longer listened to; starting the tracker registers every
  instance there is.
\<close>

theorem buffering_preserves_data:
  "(dataEventTracker s \<and> i \<in> bufferListeners s \<and> terminalBufferMap s i = None \<and> ds \<noteq> [] \<longrightarrow>
      acceptTerminalProcessData (fold (instanceData i) ds s) = acceptTerminalProcessData s
      \<and> acceptTerminalProcessData (flushBuffer i (fold (instanceData i) ds s)) =
          acceptTerminalProcessData s @ [(i, concat ds)]
      \<and> terminalBufferMap (flushBuffer i (fold (instanceData i) ds s)) i = None)
   \<and> forwardedData (terminalStep e s) i @ bufferedData (terminalStep e s) i =
       forwardedData s i @ bufferedData s i @ observedData s i e
   \<and> (dataEventTracker s \<longrightarrow> instanceId inst \<in> bufferListeners (instanceCreated inst s))
   \<and> (dataEventTracker s \<longrightarrow>
        i \<notin> bufferListeners (instanceDisposed i s) \<and> terminalBufferMap (instanceDisposed i s) i = None)
   \<and> (\<not> dataEventTracker s \<longrightarrow>
        dataEventTracker (startSendingDataEvents s) \<and>
        bufferListeners (startSendingDataEvents s) =
          bufferListeners s \<union> instanceId ` set (terminalInstances s))"
proof -
  have a: "dataEventTracker s \<and> i \<in> bufferListeners s \<and> terminalBufferMap s i = None \<and> ds \<noteq> [] \<longrightarrow>
      acceptTerminalProcessData (fold (instanceData i) ds s) = acceptTerminalProcessData s
      \<and> acceptTerminalProcessData (flushBuffer i (fold (instanceData i) ds s)) =
          acceptTerminalProcessData s @ [(i, concat ds)]
      \<and> terminalBufferMap (flushBuffer i (fold (instanceData i) ds s)) i = None"
    by (simp add: fold_instanceData_buffer flushBuffer_def onTerminalData_def)
  have c: "dataEventTracker s \<longrightarrow> instanceId inst \<in> bufferListeners (instanceCreated inst s)"
    by (simp add: instanceCreated_def Let_def registerInstance_def startBuffering_def)
  have d: "dataEventTracker s \<longrightarrow>
        i \<notin> bufferListeners (instanceDisposed i s) \<and> terminalBufferMap (instanceDisposed i s) i = None"
    by (simp add: instanceDisposed_def Let_def stopBuffering_def flushBuffer_def onTerminalData_def
          split: option.splits)
  have e: "\<not> dataEventTracker s \<longrightarrow>
        dataEventTracker (startSendingDataEvents s) \<and>
        bufferListeners (startSendingDataEvents s) =
          bufferListeners s \<union> instanceId ` set (terminalInstances s)"
    by (simp add: startSendingDataEvents_def newTerminalDataEventTracker_def fold_initial_listeners
          fold_initial_tracker fold_registerInstance fold_registerInstance_tracker)
  show ?thesis by (rule conjI [OF a conjI [OF conservation_step conjI [OF c conjI [OF d e]]]])
qed

theorem buffering_preserves_data_witness:
  "dataEventTracker oneTerminal \<and> 1 \<in> bufferListeners oneTerminal
   \<and> terminalBufferMap oneTerminal 1 = None \<and> [''ab'', ''cd'', ''e''] \<noteq> []
   \<and> acceptTerminalProcessData (flushBuffer 1 (fold (instanceData 1) [''ab'', ''cd'', ''e''] oneTerminal)) =
       [(1, ''abcde'')]
   \<and> 1 \<notin> bufferListeners (instanceDisposed 1 oneTerminal)"
proof -
  have a: "dataEventTracker oneTerminal" "1 \<in> bufferListeners oneTerminal"
     "terminalBufferMap oneTerminal 1 = None" "[''ab'', ''cd'', ''e''] \<noteq> []"
    by (simp_all add: oneTerminal_eq newTerminalService_def)
  have n: "acceptTerminalProcessData oneTerminal = []"
    by (simp add: oneTerminal_eq newTerminalService_def)
  note th = buffering_preserves_data [where s = oneTerminal and i = 1 and ds = "[''ab'', ''cd'', ''e'']"]
  from th a have "acceptTerminalProcessData (flushBuffer 1 (fold (instanceData 1) [''ab'', ''cd'', ''e''] oneTerminal)) =
      acceptTerminalProcessData oneTerminal @ [(1, concat [''ab'', ''cd'', ''e''])]" by blast
  with n have b: "acceptTerminalProcessData (flushBuffer 1 (fold (instanceData 1) [''ab'', ''cd'', ''e''] oneTerminal)) =
       [(1, ''abcde'')]" by simp
  from th a have c: "1 \<notin> bufferListeners (instanceDisposed 1 oneTerminal)" by blast
  from a b c show ?thesis by blast
qed

subsection \<open>C10: the URIs that can be tunnelled\<close>

text \<open>
  C10. \<open>canTunnel\<close> holds exactly for the URIs whose scheme is \<open>http\<close> or \<open>https\<close> and
  whose authority is one of \<open>localhost\<close>, \<open>127.0.0.1\<close> and \<open>0.0.0.0\<close>, then a colon,
  then one or more decimal digits. The IPv6 names of the local host are in
  \<open>LOCALHOST_ADDRESSES\<close>, and no URI whose authority starts with one of them (bare or in
  brackets) can be tunnelled.
\<close>

theorem canTunnel_iff:
  "(canTunnel uri \<longleftrightarrow>
      (scheme uri = ''http'' \<or> scheme uri = ''https'') \<and>
      (\<exists>h ds. h \<in> {''localhost'', ''127.0.0.1'', ''0.0.0.0''} \<and> ds \<noteq> [] \<and> list_all isDigit ds \<and>
               authority uri = h @ '':'' @ ds))
   \<and> isLocalhost ''::1'' \<and> isLocalhost ''0:0:0:0:0:0:0:1''
   \<and> \<not> canTunnel (uri\<lparr>authority := ''::1'' @ rest\<rparr>)
   \<and> \<not> canTunnel (uri\<lparr>authority := ''[::1]'' @ rest\<rparr>)
   \<and> \<not> canTunnel (uri\<lparr>authority := ''0:0:0:0:0:0:0:1'' @ rest\<rparr>)
   \<and> \<not> canTunnel (uri\<lparr>authority := ''[0:0:0:0:0:0:0:1]'' @ rest\<rparr>)"
proof -
  have l: "isLocalhost ''::1''" "isLocalhost ''0:0:0:0:0:0:0:1''"
    by (simp_all add: isLocalhost_def LOCALHOST_ADDRESSES_def)
  have a: "\<not> canTunnel (uri\<lparr>authority := ''::1'' @ rest\<rparr>)"
    by (auto simp: canTunnel_authority)
  have b: "\<not> canTunnel (uri\<lparr>authority := ''[::1]'' @ rest\<rparr>)"
    by (auto simp: canTunnel_authority)
  have c: "\<not> canTunnel (uri\<lparr>authority := ''0:0:0:0:0:0:0:1'' @ rest\<rparr>)"
    by (auto simp: canTunnel_authority)
  have d: "\<not> canTunnel (uri\<lparr>authority := ''[0:0:0:0:0:0:0:1]'' @ rest\<rparr>)"
    by (auto simp: canTunnel_authority)
  from canTunnel_authority [of uri] l a b c d show ?thesis by blast
qed

theorem canTunnel_iff_witness:
  "canTunnel \<lparr>scheme = ''http'', authority = ''localhost:3000'', path = ''/'', query = [], fragment = []\<rparr>
   \<and> \<not> canTunnel \<lparr>scheme = ''ftp'', authority = ''localhost:3000'', path = ''/'', query = [], fragment = []\<rparr>
   \<and> \<not> canTunnel \<lparr>scheme = ''http'', authority = ''[::1]:3000'', path = ''/'', query = [], fragment = []\<rparr>"
proof -
  let ?u = "\<lparr>scheme = ''http'', authority = ''localhost:3000'', path = ''/'', query = [], fragment = []\<rparr>"
  have e: "\<exists>h ds. h \<in> {''localhost'', ''127.0.0.1'', ''0.0.0.0''} \<and> ds \<noteq> [] \<and> list_all isDigit ds \<and>
               authority ?u = h @ '':'' @ ds"
    by (rule exI [of _ "''localhost''"], rule exI [of _ "''3000''"]) (simp add: isDigit_def)
  from e canTunnel_iff [of ?u "[]"] have 1: "canTunnel ?u" by simp
  have 2: "\<not> canTunnel \<lparr>scheme = ''ftp'', authority = ''localhost:3000'', path = ''/'', query = [], fragment = []\<rparr>"
    using canTunnel_iff [of "\<lparr>scheme = ''ftp'', authority = ''localhost:3000'', path = ''/'', query = [], fragment = []\<rparr>" "[]"]
    by simp
  have 3: "\<not> canTunnel \<lparr>scheme = ''http'', authority = ''[::1]:3000'', path = ''/'', query = [], fragment = []\<rparr>"
    using canTunnel_iff [of ?u "'':3000''"] by simp
  from 1 2 3 show ?thesis by blast
qed

end
